theory Spec2Isabelle
  imports Complex_Main "HOL-Library.Multiset" "HOL-Library.List_Lexorder" "HOL-Library.Product_Lexorder"
begin

section \<open>JavaScript built-ins used by the server code\<close>

text \<open>
  Strings are lists of 8-bit characters read as ASCII; on ASCII input
  \<^verbatim>\<open>normalize('NFKD')\<close> is the identity and \<^verbatim>\<open>toLowerCase\<close> only moves
  \<^verbatim>\<open>A-Z\<close>.  Numbers are exact rationals: every finite double is one, and the
  rounding of double arithmetic is not modelled.  The three built-ins whose result
  is fixed by the host and not by the repository are taken as parameters, gathered
  in \<open>JsRuntime\<close>: \<^verbatim>\<open>String.prototype.localeCompare\<close>, the number-to-string
  conversion of template literals and \<^verbatim>\<open>String(n)\<close>, and \<^verbatim>\<open>Number(s)\<close> on a
  string (\<open>None\<close> when the result is not finite).
\<close>

record JsRuntime =
  localeCompare :: "string \<Rightarrow> string \<Rightarrow> int"
  numberToString :: "rat \<Rightarrow> string"
  stringToNumber :: "string \<Rightarrow> rat option"

definition isUpper :: "char \<Rightarrow> bool" where
  "isUpper c = (65 \<le> (of_char c :: nat) \<and> (of_char c :: nat) \<le> 90)"

definition toLowerChar :: "char \<Rightarrow> char" where
  "toLowerChar c = (if isUpper c then char_of ((of_char c :: nat) + 32) else c)"

definition toLowerCase :: "string \<Rightarrow> string" where
  "toLowerCase s = map toLowerChar s"

definition isWhiteSpace :: "char \<Rightarrow> bool" where
  "isWhiteSpace c = ((of_char c :: nat) \<in> {9, 10, 11, 12, 13, 32})"

definition trim :: "string \<Rightarrow> string" where
  "trim s = rev (dropWhile isWhiteSpace (rev (dropWhile isWhiteSpace s)))"

definition startsWith :: "string \<Rightarrow> string \<Rightarrow> bool" where
  "startsWith s p = (take (length p) s = p)"

text \<open>\<^verbatim>\<open>Math.round\<close>: the nearest integer, halves going up.\<close>

definition mathRound :: "rat \<Rightarrow> int" where
  "mathRound x = \<lfloor>x + 1 / 2\<rfloor>"

text \<open>\<^verbatim>\<open>Array.prototype.join\<close>.\<close>

fun join :: "string \<Rightarrow> string list \<Rightarrow> string" where
  "join sep [] = []"
| "join sep [x] = x"
| "join sep (x # y # ys) = x @ sep @ join sep (y # ys)"

text \<open>
  \<^verbatim>\<open>Array.prototype.sort\<close> with a comparator.  The sort is stable (ECMAScript
  2019), so for a consistent comparator its result is the one every stable sort
  returns; it is written here as a stable insertion sort.
\<close>

fun insertBy :: "('a \<Rightarrow> 'a \<Rightarrow> int) \<Rightarrow> 'a \<Rightarrow> 'a list \<Rightarrow> 'a list" where
  "insertBy cmp x [] = [x]"
| "insertBy cmp x (y # ys) = (if cmp x y \<le> 0 then x # y # ys else y # insertBy cmp x ys)"

definition sortBy :: "('a \<Rightarrow> 'a \<Rightarrow> int) \<Rightarrow> 'a list \<Rightarrow> 'a list" where
  "sortBy cmp xs = foldr (insertBy cmp) xs []"

text \<open>Decimal rendering of an array index or a length inside a template literal.\<close>

fun digitsOf :: "nat \<Rightarrow> nat \<Rightarrow> string" where
  "digitsOf 0 n = []"
| "digitsOf (Suc fuel) n =
     (if n < 10 then [char_of (48 + n)]
      else digitsOf fuel (n div 10) @ [char_of (48 + n mod 10)])"

definition natToString :: "nat \<Rightarrow> string" where
  "natToString n = digitsOf (Suc n) n"

section \<open>Data model (types.ts)\<close>

datatype SourceId = Ardb | Metaforge | Raidtheory | Mahcks

fun sourceIdString :: "SourceId \<Rightarrow> string" where
  "sourceIdString Ardb = ''ardb''"
| "sourceIdString Metaforge = ''metaforge''"
| "sourceIdString Raidtheory = ''raidtheory''"
| "sourceIdString Mahcks = ''mahcks''"

text \<open>A raw provider payload: a JSON value, or \<^verbatim>\<open>undefined\<close> for a property that is not there.
  An object lists its own properties, each key once, in enumeration order.\<close>

datatype json =
    JUndefined
  | JNull
  | JBool bool
  | JNum rat
  | JStr string
  | JArr "json list"
  | JObj "(string \<times> json) list"

record RecipePart =
  itemId :: "string option"
  partName :: "string option"
  amount :: rat

record SourceItem =
  sourceId :: SourceId
  sourceItemId :: "string option"
  name :: "string option"
  itemType :: "string option"
  rarity :: "string option"
  itemValue :: "rat option"
  weight :: "rat option"
  inputs :: "RecipePart list option"
  outputs :: "RecipePart list option"
  raw :: json

record FieldDiffers =
  nameDiffers :: bool
  typeDiffers :: bool
  rarityDiffers :: bool
  valueDiffers :: bool
  weightDiffers :: bool

record DiffReport =
  missingIn :: "SourceId list"
  fieldDiffers :: FieldDiffers
  recipeDiffers :: bool
  severity :: int
  explanation :: "string list"

datatype MatchMethod = Exact | Fuzzy | NoMatch

record MatchDetail =
  matchMethod :: MatchMethod
  confidence :: rat

record CanonicalItem =
  canonicalId :: string
  nameKey :: string
  displayName :: string
  bySource :: "SourceId \<rightharpoonup> SourceItem"
  matchDetails :: "SourceId \<rightharpoonup> MatchDetail"
  diffReport :: DiffReport

section \<open>Diff engine (matchAndDiff.ts)\<close>

definition normalizeText :: "string option \<Rightarrow> string option" where
  "normalizeText v =
     (case v of
        None \<Rightarrow> None
      | Some s \<Rightarrow>
          if s = [] then None
          else (let trimmed = trim s in
                if length trimmed > 0 then Some (toLowerCase trimmed) else None))"

text \<open>A rational is never \<^verbatim>\<open>NaN\<close>, so only the \<^verbatim>\<open>undefined\<close> test remains.\<close>

definition normalizeNumber :: "rat option \<Rightarrow> rat option" where
  "normalizeNumber v =
     (case v of
        None \<Rightarrow> None
      | Some x \<Rightarrow> Some (of_int (mathRound (x * 10000)) / 10000))"

definition recipePartKey :: "RecipePart \<Rightarrow> string" where
  "recipePartKey part =
     toLowerCase (case itemId part of
                    Some i \<Rightarrow> i
                  | None \<Rightarrow> (case partName part of Some n \<Rightarrow> n | None \<Rightarrow> []))"

definition renderParts :: "JsRuntime \<Rightarrow> RecipePart list \<Rightarrow> string" where
  "renderParts rt parts =
     join ''|''
       (map (\<lambda>part. recipePartKey part @ '':'' @ numberToString rt (amount part))
          (sortBy (\<lambda>a b. localeCompare rt (recipePartKey a) (recipePartKey b)) parts))"

definition recipeSignature :: "JsRuntime \<Rightarrow> SourceItem option \<Rightarrow> string" where
  "recipeSignature rt item =
     (case item of
        None \<Rightarrow> ''__missing__''
      | Some it \<Rightarrow>
          (let ins = map_option (renderParts rt) (inputs it);
               outs = map_option (renderParts rt) (outputs it)
           in if (ins = None \<or> ins = Some []) \<and> (outs = None \<or> outs = Some []) then []
              else ''in['' @ (case ins of None \<Rightarrow> [] | Some s \<Rightarrow> s)
                   @ '']out['' @ (case outs of None \<Rightarrow> [] | Some s \<Rightarrow> s) @ '']''))"

text \<open>
  \<^verbatim>\<open>JSON.stringify\<close> is injective on strings and on finite numbers, so the size of
  the set of stringified values is the number of distinct defined values.
\<close>

definition differsByValues :: "'a option list \<Rightarrow> ('a option \<Rightarrow> 'b option) \<Rightarrow> bool" where
  "differsByValues values normalizer =
     (let normalized = map normalizer values;
          defined = filter (\<lambda>v. v \<noteq> None) normalized
      in if length defined = 0 then False
         else if length (remdups defined) > 1 then True
         else length defined \<noteq> length normalized)"

definition formatSourceString :: "string option \<Rightarrow> string" where
  "formatSourceString v = (case v of None \<Rightarrow> ''-'' | Some s \<Rightarrow> if s = [] then ''-'' else s)"

definition formatSourceNumber :: "JsRuntime \<Rightarrow> rat option \<Rightarrow> string" where
  "formatSourceNumber rt v = (case v of None \<Rightarrow> ''-'' | Some x \<Rightarrow> numberToString rt x)"

definition fieldOf :: "CanonicalItem \<Rightarrow> (SourceItem \<Rightarrow> 'a option) \<Rightarrow> SourceId \<Rightarrow> 'a option" where
  "fieldOf item f sid = (case bySource item sid of None \<Rightarrow> None | Some it \<Rightarrow> f it)"

definition explainLine :: "string \<Rightarrow> SourceId list \<Rightarrow> (SourceId \<Rightarrow> string) \<Rightarrow> string" where
  "explainLine label enabledSources shown =
     label @ join '', '' (map (\<lambda>sid. sourceIdString sid @ ''='' @ shown sid) enabledSources)"

text \<open>
  \<open>buildDiffReport\<close> is split along its local bindings: the per-field flags, the
  recipe flag, the severity and the explanation lines are the values the source
  binds to \<^verbatim>\<open>fieldDiffers\<close>, \<^verbatim>\<open>recipeDiffers\<close>, \<^verbatim>\<open>severity\<close> and \<^verbatim>\<open>explanation\<close>.
\<close>

definition presentIn :: "CanonicalItem \<Rightarrow> SourceId list \<Rightarrow> SourceId list" where
  "presentIn item enabledSources = filter (\<lambda>sid. bySource item sid \<noteq> None) enabledSources"

definition absentIn :: "CanonicalItem \<Rightarrow> SourceId list \<Rightarrow> SourceId list" where
  "absentIn item enabledSources = filter (\<lambda>sid. bySource item sid = None) enabledSources"

definition fieldFlags :: "CanonicalItem \<Rightarrow> SourceId list \<Rightarrow> FieldDiffers" where
  "fieldFlags item presentSources =
     \<lparr> nameDiffers = differsByValues (map (fieldOf item name) presentSources) normalizeText,
       typeDiffers = differsByValues (map (fieldOf item itemType) presentSources) normalizeText,
       rarityDiffers = differsByValues (map (fieldOf item rarity) presentSources) normalizeText,
       valueDiffers = differsByValues (map (fieldOf item itemValue) presentSources) normalizeNumber,
       weightDiffers = differsByValues (map (fieldOf item weight) presentSources) normalizeNumber \<rparr>"

definition truthyString :: "string option \<Rightarrow> string option" where
  "truthyString v = (case v of None \<Rightarrow> None | Some s \<Rightarrow> if s \<noteq> [] then Some s else None)"

definition recipeFlag :: "JsRuntime \<Rightarrow> CanonicalItem \<Rightarrow> SourceId list \<Rightarrow> bool" where
  "recipeFlag rt item presentSources =
     differsByValues (map (\<lambda>sid. Some (recipeSignature rt (bySource item sid))) presentSources)
       truthyString"

definition severityOf :: "SourceId list \<Rightarrow> FieldDiffers \<Rightarrow> bool \<Rightarrow> int" where
  "severityOf missing fd rd =
     min 100
       (int (length missing) * 18
        + (if nameDiffers fd then 10 else 0)
        + (if typeDiffers fd then 8 else 0)
        + (if rarityDiffers fd then 8 else 0)
        + (if valueDiffers fd then 12 else 0)
        + (if weightDiffers fd then 12 else 0)
        + (if rd then 20 else 0))"

definition explanationOf ::
  "JsRuntime \<Rightarrow> CanonicalItem \<Rightarrow> SourceId list \<Rightarrow> SourceId list \<Rightarrow> FieldDiffers \<Rightarrow> bool
     \<Rightarrow> string list" where
  "explanationOf rt item enabledSources missing fd rd =
     (if length missing > 0
      then [''Missing in: '' @ join '', '' (map sourceIdString missing)] else [])
     @ (if nameDiffers fd
        then [explainLine ''Name differs: '' enabledSources
                (\<lambda>sid. formatSourceString (fieldOf item name sid))] else [])
     @ (if typeDiffers fd
        then [explainLine ''Type differs: '' enabledSources
                (\<lambda>sid. formatSourceString (fieldOf item itemType sid))] else [])
     @ (if rarityDiffers fd
        then [explainLine ''Rarity differs: '' enabledSources
                (\<lambda>sid. formatSourceString (fieldOf item rarity sid))] else [])
     @ (if valueDiffers fd
        then [explainLine ''Value differs: '' enabledSources
                (\<lambda>sid. formatSourceNumber rt (fieldOf item itemValue sid))] else [])
     @ (if weightDiffers fd
        then [explainLine ''Weight differs: '' enabledSources
                (\<lambda>sid. formatSourceNumber rt (fieldOf item weight sid))] else [])
     @ (if rd then [''Recipe differs (inputs/outputs are not equivalent).''] else [])"

definition buildDiffReport :: "JsRuntime \<Rightarrow> CanonicalItem \<Rightarrow> SourceId list \<Rightarrow> DiffReport" where
  "buildDiffReport rt item enabledSources =
     (let presentSources = presentIn item enabledSources;
          missing = absentIn item enabledSources;
          fd = fieldFlags item presentSources;
          rd = recipeFlag rt item presentSources
      in \<lparr> missingIn = missing, fieldDiffers = fd, recipeDiffers = rd,
           severity = severityOf missing fd rd,
           explanation = explanationOf rt item enabledSources missing fd rd \<rparr>)"

section \<open>Entity resolver (matchAndDiff.ts)\<close>

definition isLowerAlnum :: "char \<Rightarrow> bool" where
  "isLowerAlnum c =
     ((97 \<le> (of_char c :: nat) \<and> (of_char c :: nat) \<le> 122)
      \<or> (48 \<le> (of_char c :: nat) \<and> (of_char c :: nat) \<le> 57))"

text \<open>\<^verbatim>\<open>replace(/[p]+/g, ' ')\<close>: every maximal run of characters in the class \<open>p\<close>
  becomes one space (the space is written when the run ends).\<close>

fun replaceRuns :: "(char \<Rightarrow> bool) \<Rightarrow> string \<Rightarrow> string" where
  "replaceRuns p [] = []"
| "replaceRuns p [c] = (if p c then '' '' else [c])"
| "replaceRuns p (c # d # ds) =
     (if p c then (if p d then replaceRuns p (d # ds) else CHR '' '' # replaceRuns p (d # ds))
      else c # replaceRuns p (d # ds))"

definition normalizeNameForMatch :: "string \<Rightarrow> string" where
  "normalizeNameForMatch v =
     replaceRuns isWhiteSpace (trim (replaceRuns (\<lambda>c. \<not> isLowerAlnum c) (toLowerCase v)))"

definition bigrams :: "string \<Rightarrow> string list" where
  "bigrams v =
     (let normalized = '' '' @ v @ '' ''
      in map (\<lambda>i. take 2 (drop i normalized)) [0..<length normalized - 1])"

text \<open>The two loops of \<open>similarity\<close> over its \<^verbatim>\<open>Map<string, number>\<close>.\<close>

definition countToken :: "string \<Rightarrow> (string \<rightharpoonup> nat) \<Rightarrow> (string \<rightharpoonup> nat)" where
  "countToken token counts =
     counts(token \<mapsto> (case counts token of None \<Rightarrow> 0 | Some c \<Rightarrow> c) + 1)"

definition overlapStep :: "string \<Rightarrow> nat \<times> (string \<rightharpoonup> nat) \<Rightarrow> nat \<times> (string \<rightharpoonup> nat)" where
  "overlapStep token st =
     (let current = (case snd st token of None \<Rightarrow> 0 | Some c \<Rightarrow> c)
      in if current > 0 then (fst st + 1, (snd st)(token \<mapsto> current - 1)) else st)"

definition similarity :: "string \<Rightarrow> string \<Rightarrow> rat" where
  "similarity left right =
     (if left = right then 1
      else if left = [] \<or> right = [] then 0
      else (let leftBigrams = bigrams left;
                rightBigrams = bigrams right
            in if length leftBigrams = 0 \<or> length rightBigrams = 0 then 0
               else (let counts = fold countToken leftBigrams Map.empty;
                         overlap = fst (fold overlapStep rightBigrams (0, counts))
                     in of_nat (2 * overlap)
                        / of_nat (length leftBigrams + length rightBigrams))))"

definition getDisplayName :: "SourceItem \<Rightarrow> nat \<Rightarrow> string" where
  "getDisplayName item fallbackIndex =
     (case name item of
        Some n \<Rightarrow> n
      | None \<Rightarrow>
          (case sourceItemId item of
             Some i \<Rightarrow> i
           | None \<Rightarrow> sourceIdString (sourceId item) @ ''-item-'' @ natToString fallbackIndex))"

definition truthy :: "string option \<Rightarrow> bool" where
  "truthy v = (case v of None \<Rightarrow> False | Some s \<Rightarrow> s \<noteq> [])"

definition getNameKey :: "SourceItem \<Rightarrow> nat \<Rightarrow> string" where
  "getNameKey item fallbackIndex =
     (let normalized = (if truthy (name item) then normalizeNameForMatch (the (name item)) else [])
      in if normalized \<noteq> [] then normalized
         else if truthy (sourceItemId item)
         then ''id:'' @ sourceIdString (sourceId item) @ '':'' @ toLowerCase (the (sourceItemId item))
         else ''id:'' @ sourceIdString (sourceId item) @ '':'' @ natToString fallbackIndex)"

text \<open>
  The resolver's state is its two locals, \<^verbatim>\<open>canonicalItems\<close> and \<^verbatim>\<open>nameIndex\<close>.
  The index only ever receives \<^verbatim>\<open>canonicalItems.length - 1\<close> right after a push, so
  every index read from it is in range (lemma \<open>resolveAll_index_in_range\<close>) and
  \<open>cs ! i\<close> is the element the source reads.
\<close>

type_synonym ResolverState = "CanonicalItem list \<times> (string \<rightharpoonup> nat list)"

definition findExact :: "CanonicalItem list \<Rightarrow> SourceId \<Rightarrow> nat list \<Rightarrow> nat option" where
  "findExact cs sid exactCandidates = find (\<lambda>i. bySource (cs ! i) sid = None) exactCandidates"

definition fuzzyStep ::
  "CanonicalItem list \<Rightarrow> SourceId \<Rightarrow> string \<Rightarrow> nat \<Rightarrow> nat option \<times> rat \<Rightarrow> nat option \<times> rat" where
  "fuzzyStep cs sid key candidateIndex best =
     (let candidate = cs ! candidateIndex
      in if bySource candidate sid \<noteq> None then best
         else if startsWith (nameKey candidate) ''id:'' then best
         else (let score = similarity key (nameKey candidate)
               in if score > snd best then (Some candidateIndex, score) else best))"

definition fuzzyBest :: "CanonicalItem list \<Rightarrow> SourceId \<Rightarrow> string \<Rightarrow> nat option \<times> rat" where
  "fuzzyBest cs sid key = fold (fuzzyStep cs sid key) [0..<length cs] (None, 0)"

text \<open>
  The body of the item loop of \<open>mergeAndDiffItems\<close> in two parts: \<open>matchItem\<close> is the
  search that sets \<^verbatim>\<open>assignedIndex\<close>, \<^verbatim>\<open>assignedMethod\<close> and \<^verbatim>\<open>assignedConfidence\<close>
  (the exact lookup \<open>findExact\<close>, then the fuzzy scan \<open>fuzzyBest\<close> whose loop body is
  \<open>fuzzyStep\<close>); \<open>processItem\<close> then pushes a new canonical entity or writes the item
  into the assigned one.  \<open>roundTo3\<close> is \<^verbatim>\<open>Math.round(bestScore * 1000) / 1000\<close>.
\<close>

definition roundTo3 :: "rat \<Rightarrow> rat" where
  "roundTo3 x = of_int (mathRound (x * 1000)) / 1000"

definition matchItem ::
  "rat \<Rightarrow> CanonicalItem list \<Rightarrow> (string \<rightharpoonup> nat list) \<Rightarrow> SourceId \<Rightarrow> string
     \<Rightarrow> nat option \<times> MatchMethod \<times> rat" where
  "matchItem fuzzyThreshold cs nameIndex sid key =
     (case findExact cs sid (case nameIndex key of None \<Rightarrow> [] | Some l \<Rightarrow> l) of
        Some i \<Rightarrow> (Some i, Exact, 1)
      | None \<Rightarrow>
          if \<not> startsWith key ''id:''
          then (case fuzzyBest cs sid key of
                  (Some bestIndex, bestScore) \<Rightarrow>
                    if bestScore \<ge> fuzzyThreshold
                    then (Some bestIndex, Fuzzy, roundTo3 bestScore)
                    else (None, NoMatch, 1)
                | (None, bestScore) \<Rightarrow> (None, NoMatch, 1))
          else (None, NoMatch, 1))"

definition emptyDiffReport :: DiffReport where
  "emptyDiffReport =
     \<lparr> missingIn = [],
       fieldDiffers = \<lparr> nameDiffers = False, typeDiffers = False, rarityDiffers = False,
                        valueDiffers = False, weightDiffers = False \<rparr>,
       recipeDiffers = False, severity = 0, explanation = [] \<rparr>"

definition newCanonical :: "nat \<Rightarrow> string \<Rightarrow> string \<Rightarrow> SourceId \<Rightarrow> SourceItem \<Rightarrow> CanonicalItem" where
  "newCanonical n key shown sid item =
     \<lparr> canonicalId = ''canonical-'' @ natToString (n + 1),
       nameKey = key,
       displayName = shown,
       bySource = [sid \<mapsto> item],
       matchDetails = [sid \<mapsto> \<lparr> matchMethod = Exact, confidence = 1 \<rparr>],
       diffReport = emptyDiffReport \<rparr>"

definition assignTo :: "SourceId \<Rightarrow> SourceItem \<Rightarrow> MatchMethod \<Rightarrow> rat \<Rightarrow> CanonicalItem \<Rightarrow> CanonicalItem" where
  "assignTo sid item m c target =
     target \<lparr> bySource := (bySource target)(sid \<mapsto> item),
              matchDetails := (matchDetails target)(sid \<mapsto> \<lparr> matchMethod = m, confidence = c \<rparr>) \<rparr>"

definition processItem :: "rat \<Rightarrow> SourceId \<Rightarrow> nat \<times> SourceItem \<Rightarrow> ResolverState \<Rightarrow> ResolverState" where
  "processItem fuzzyThreshold sid indexed st =
     (let cs = fst st;
          nameIndex = snd st;
          shown = getDisplayName (snd indexed) (fst indexed);
          key = getNameKey (snd indexed) (fst indexed)
      in case matchItem fuzzyThreshold cs nameIndex sid key of
           (None, m, c) \<Rightarrow>
             (cs @ [newCanonical (length cs) key shown sid (snd indexed)],
              nameIndex(key \<mapsto> (case nameIndex key of None \<Rightarrow> [] | Some l \<Rightarrow> l) @ [length cs]))
         | (Some assignedIndex, m, c) \<Rightarrow>
             (cs[assignedIndex := assignTo sid (snd indexed) m c (cs ! assignedIndex)], nameIndex))"

definition itemsOf :: "(SourceId \<rightharpoonup> SourceItem list) \<Rightarrow> SourceId \<Rightarrow> SourceItem list" where
  "itemsOf normalizedBySource sid = (case normalizedBySource sid of None \<Rightarrow> [] | Some l \<Rightarrow> l)"

definition processSource ::
  "rat \<Rightarrow> (SourceId \<rightharpoonup> SourceItem list) \<Rightarrow> SourceId \<Rightarrow> ResolverState \<Rightarrow> ResolverState" where
  "processSource fuzzyThreshold normalizedBySource sid st =
     fold (processItem fuzzyThreshold sid) (enumerate 0 (itemsOf normalizedBySource sid)) st"

definition resolveAll ::
  "rat \<Rightarrow> (SourceId \<rightharpoonup> SourceItem list) \<Rightarrow> SourceId list \<Rightarrow> ResolverState" where
  "resolveAll fuzzyThreshold normalizedBySource enabledSources =
     fold (processSource fuzzyThreshold normalizedBySource) enabledSources ([], Map.empty)"

definition preferredName :: "CanonicalItem \<Rightarrow> SourceId list \<Rightarrow> string option" where
  "preferredName item enabledSources =
     (case find truthy (map (fieldOf item name) enabledSources) of
        None \<Rightarrow> None
      | Some v \<Rightarrow> v)"

definition finalizeItem :: "JsRuntime \<Rightarrow> SourceId list \<Rightarrow> CanonicalItem \<Rightarrow> CanonicalItem" where
  "finalizeItem rt enabledSources item =
     (let named = (case preferredName item enabledSources of
                     None \<Rightarrow> item
                   | Some n \<Rightarrow> item \<lparr> displayName := n \<rparr>)
      in named \<lparr> diffReport := buildDiffReport rt named enabledSources \<rparr>)"

definition compareCanonical :: "JsRuntime \<Rightarrow> CanonicalItem \<Rightarrow> CanonicalItem \<Rightarrow> int" where
  "compareCanonical rt left right =
     (if severity (diffReport right) \<noteq> severity (diffReport left)
      then severity (diffReport right) - severity (diffReport left)
      else localeCompare rt (displayName left) (displayName right))"

definition mergeAndDiffItems ::
  "JsRuntime \<Rightarrow> (SourceId \<rightharpoonup> SourceItem list) \<Rightarrow> SourceId list \<Rightarrow> rat \<Rightarrow> CanonicalItem list" where
  "mergeAndDiffItems rt normalizedBySource enabledSources fuzzyThreshold =
     sortBy (compareCanonical rt)
       (map (finalizeItem rt enabledSources)
          (fst (resolveAll fuzzyThreshold normalizedBySource enabledSources)))"

section \<open>Normalizer (normalize.ts)\<close>

text \<open>Property access \<^verbatim>\<open>v.k\<close> and \<^verbatim>\<open>v?.k\<close> for the property names the normalizer
  reads: only an object that is not an array has them.\<close>

definition field :: "json \<Rightarrow> string \<Rightarrow> json" where
  "field v k =
     (case v of
        JObj kvs \<Rightarrow> (case map_of kvs k of None \<Rightarrow> JUndefined | Some x \<Rightarrow> x)
      | _ \<Rightarrow> JUndefined)"

fun truthyJson :: "json \<Rightarrow> bool" where
  "truthyJson JUndefined = False"
| "truthyJson JNull = False"
| "truthyJson (JBool b) = b"
| "truthyJson (JNum x) = (x \<noteq> 0)"
| "truthyJson (JStr s) = (s \<noteq> [])"
| "truthyJson (JArr xs) = True"
| "truthyJson (JObj kvs) = True"

text \<open>\<^verbatim>\<open>v && typeof v === 'object'\<close>.\<close>

fun isObject :: "json \<Rightarrow> bool" where
  "isObject (JArr xs) = True"
| "isObject (JObj kvs) = True"
| "isObject v = False"

text \<open>\<^verbatim>\<open>Object.values\<close> of an object or an array.\<close>

fun objectValues :: "json \<Rightarrow> json list" where
  "objectValues (JArr xs) = xs"
| "objectValues (JObj kvs) = map snd kvs"
| "objectValues v = []"

text \<open>\<^verbatim>\<open>a ?? b\<close>.\<close>

definition orElse :: "'a option \<Rightarrow> 'a option \<Rightarrow> 'a option" where
  "orElse a b = (case a of None \<Rightarrow> b | Some x \<Rightarrow> Some x)"

definition toStringOrUndefined :: "json \<Rightarrow> string option" where
  "toStringOrUndefined v =
     (case v of
        JStr s \<Rightarrow> (let trimmed = trim s in if length trimmed > 0 then Some trimmed else None)
      | _ \<Rightarrow> None)"

definition toNumberOrUndefined :: "JsRuntime \<Rightarrow> json \<Rightarrow> rat option" where
  "toNumberOrUndefined rt v =
     (case v of
        JNum x \<Rightarrow> Some x
      | JStr s \<Rightarrow> stringToNumber rt s
      | _ \<Rightarrow> None)"

definition nameFromUnknown :: "json \<Rightarrow> string option" where
  "nameFromUnknown v =
     (case toStringOrUndefined v of
        Some direct \<Rightarrow> Some direct
      | None \<Rightarrow>
          if isObject v
          then (case toStringOrUndefined (field v ''en'') of
                  Some english \<Rightarrow> Some english
                | None \<Rightarrow>
                    (case find (\<lambda>c. c \<noteq> None) (map toStringOrUndefined (objectValues v)) of
                       None \<Rightarrow> None
                     | Some first \<Rightarrow> first))
          else None)"

text \<open>The bodies of the two loops of \<open>normalizeRecipeParts\<close>: what one array entry
  (\<open>partOfEntry\<close>) and one entry of the id-to-amount map (\<open>partOfPair\<close>) contribute,
  \<open>None\<close> where the loop continues without a push.\<close>

definition partOfEntry :: "JsRuntime \<Rightarrow> json \<Rightarrow> RecipePart option" where
  "partOfEntry rt entry =
     (if \<not> isObject entry then None
      else (let nested = (if isObject (field entry ''item'') then field entry ''item'' else JUndefined);
                nestedComponent =
                  (if isObject (field entry ''component'') then field entry ''component''
                   else JUndefined);
                amt = (case orElse (toNumberOrUndefined rt (field entry ''amount''))
                              (orElse (toNumberOrUndefined rt (field entry ''quantity''))
                                 (toNumberOrUndefined rt (field entry ''count''))) of
                         None \<Rightarrow> 1 | Some x \<Rightarrow> x);
                ident = orElse (toStringOrUndefined (field entry ''itemId''))
                          (orElse (toStringOrUndefined (field entry ''id''))
                             (orElse (toStringOrUndefined (field nested ''id''))
                                (toStringOrUndefined (field nestedComponent ''id''))));
                shown = orElse (nameFromUnknown (field entry ''name''))
                          (orElse (nameFromUnknown (field entry ''itemName''))
                             (orElse (nameFromUnknown (field nested ''name''))
                                (nameFromUnknown (field nestedComponent ''name''))))
            in if ident = None \<and> shown = None then None
               else Some \<lparr> itemId = ident, partName = shown, amount = amt \<rparr>))"

definition partOfPair :: "JsRuntime \<Rightarrow> string \<times> json \<Rightarrow> RecipePart option" where
  "partOfPair rt kv =
     (case toNumberOrUndefined rt (snd kv) of
        None \<Rightarrow> None
      | Some numericAmount \<Rightarrow>
          if numericAmount = 0 \<or> numericAmount \<le> 0 then None
          else Some \<lparr> itemId = Some (fst kv), partName = None, amount = numericAmount \<rparr>)"

definition rawItemId :: "RecipePart \<Rightarrow> string" where
  "rawItemId part = (case itemId part of None \<Rightarrow> [] | Some i \<Rightarrow> i)"

definition normalizeRecipeParts :: "JsRuntime \<Rightarrow> json \<Rightarrow> RecipePart list option" where
  "normalizeRecipeParts rt v =
     (if \<not> truthyJson v then None
      else (case v of
              JArr entries \<Rightarrow>
                (let parts = List.map_filter (partOfEntry rt) entries;
                     sorted = sortBy (\<lambda>a b. localeCompare rt (recipePartKey a) (recipePartKey b)) parts
                 in if length parts > 0 then Some sorted else None)
            | JObj kvs \<Rightarrow>
                (let parts = List.map_filter (partOfPair rt) kvs;
                     sorted = sortBy (\<lambda>a b. localeCompare rt (rawItemId a) (rawItemId b)) parts
                 in if length parts > 0 then Some sorted else None)
            | _ \<Rightarrow> None))"

definition selfOutput :: "string \<Rightarrow> string option \<Rightarrow> rat \<Rightarrow> RecipePart list" where
  "selfOutput ident shown amt = [\<lparr> itemId = Some ident, partName = shown, amount = amt \<rparr>]"

definition normalizeArdbItem :: "JsRuntime \<Rightarrow> json \<Rightarrow> SourceItem" where
  "normalizeArdbItem rt rawItem =
     (let ident = toStringOrUndefined (field rawItem ''id'');
          shown = nameFromUnknown (field rawItem ''name'');
          crafting = field rawItem ''craftingRequirement'';
          requiredItems = (case field crafting ''requiredItems'' of
                             JArr xs \<Rightarrow> JArr xs | _ \<Rightarrow> JUndefined);
          ins = orElse (normalizeRecipeParts rt requiredItems)
                  (normalizeRecipeParts rt (field rawItem ''recipe''));
          outs = (case ident of
                    Some i \<Rightarrow>
                      if truthyJson crafting
                      then Some (selfOutput i shown
                                   (case toNumberOrUndefined rt (field crafting ''outputAmount'') of
                                      None \<Rightarrow> 1 | Some x \<Rightarrow> x))
                      else None
                  | None \<Rightarrow> None)
      in \<lparr> sourceId = Ardb, sourceItemId = ident, name = shown,
           itemType = toStringOrUndefined (field rawItem ''type''),
           rarity = toStringOrUndefined (field rawItem ''rarity''),
           itemValue = toNumberOrUndefined rt (field rawItem ''value''),
           weight = toNumberOrUndefined rt (field rawItem ''weight''),
           inputs = ins, outputs = outs, raw = rawItem \<rparr>)"

definition normalizeMetaForgeItem :: "JsRuntime \<Rightarrow> json \<Rightarrow> SourceItem" where
  "normalizeMetaForgeItem rt rawItem =
     (let ident = toStringOrUndefined (field rawItem ''id'');
          shown = nameFromUnknown (field rawItem ''name'');
          statBlock = field rawItem ''stat_block'';
          ins = orElse (normalizeRecipeParts rt (field rawItem ''components''))
                  (orElse (normalizeRecipeParts rt (field rawItem ''recipe''))
                     (normalizeRecipeParts rt (field rawItem ''ingredients'')));
          outs0 = orElse (normalizeRecipeParts rt (field rawItem ''outputs''))
                    (normalizeRecipeParts rt (field rawItem ''output''));
          outs = (case outs0 of
                    Some parts \<Rightarrow> Some parts
                  | None \<Rightarrow>
                      (case ident of
                         Some i \<Rightarrow> if ins \<noteq> None then Some (selfOutput i shown 1) else None
                       | None \<Rightarrow> None))
      in \<lparr> sourceId = Metaforge, sourceItemId = ident, name = shown,
           itemType = orElse (toStringOrUndefined (field rawItem ''item_type''))
                        (toStringOrUndefined (field rawItem ''type'')),
           rarity = toStringOrUndefined (field rawItem ''rarity''),
           itemValue = toNumberOrUndefined rt (field rawItem ''value''),
           weight = orElse (toNumberOrUndefined rt (field statBlock ''weight''))
                      (toNumberOrUndefined rt (field rawItem ''weight'')),
           inputs = ins, outputs = outs, raw = rawItem \<rparr>)"

definition normalizeRaidTheoryLikeItem :: "JsRuntime \<Rightarrow> SourceId \<Rightarrow> json \<Rightarrow> SourceItem" where
  "normalizeRaidTheoryLikeItem rt sid rawItem =
     (let ident = toStringOrUndefined (field rawItem ''id'');
          shown = nameFromUnknown (field rawItem ''name'');
          ins = normalizeRecipeParts rt (field rawItem ''recipe'');
          outs = (case ident of
                    Some i \<Rightarrow> if ins \<noteq> None then Some (selfOutput i shown 1) else None
                  | None \<Rightarrow> None)
      in \<lparr> sourceId = sid, sourceItemId = ident, name = shown,
           itemType = toStringOrUndefined (field rawItem ''type''),
           rarity = toStringOrUndefined (field rawItem ''rarity''),
           itemValue = toNumberOrUndefined rt (field rawItem ''value''),
           weight = orElse (toNumberOrUndefined rt (field rawItem ''weightKg''))
                      (toNumberOrUndefined rt (field rawItem ''weight'')),
           inputs = ins, outputs = outs, raw = rawItem \<rparr>)"

record SourceFetchResult =
  resultSourceId :: SourceId
  fetchedAt :: string
  versionOrCommit :: string
  itemsRaw :: "json list"

text \<open>The \<^verbatim>\<open>default\<close> branch of the switch is unreachable: \<open>SourceId\<close> has the four
  values the switch lists.\<close>

definition normalizeSourceFetch :: "JsRuntime \<Rightarrow> SourceFetchResult \<Rightarrow> SourceItem list" where
  "normalizeSourceFetch rt result =
     map (\<lambda>rawItem.
            case resultSourceId result of
              Ardb \<Rightarrow> normalizeArdbItem rt rawItem
            | Metaforge \<Rightarrow> normalizeMetaForgeItem rt rawItem
            | Raidtheory \<Rightarrow> normalizeRaidTheoryLikeItem rt Raidtheory rawItem
            | Mahcks \<Rightarrow> normalizeRaidTheoryLikeItem rt Mahcks rawItem)
       (filter isObject (itemsRaw result))"

section \<open>Pipeline orchestrator (pipeline.ts)\<close>

text \<open>
  A connector is named by its provider id (\<^verbatim>\<open>getConnectors\<close> maps each requested id to
  the connector registered under it).  \<open>settled i\<close> is what \<^verbatim>\<open>Promise.allSettled\<close>
  reports for the fetch of the connector at position \<open>i\<close>; \<open>clock i\<close> is the time
  read when the summary of a failed fetch at position \<open>i\<close> is written.
\<close>

record SourceSummary =
  summarySourceId :: SourceId
  summaryFetchedAt :: string
  summaryVersion :: string
  itemCount :: nat
  summaryError :: "string option"

record DiffDataResponse =
  generatedAt :: string
  enabledSources :: "SourceId list"
  sourceSummaries :: "SourceSummary list"
  canonicalItems :: "CanonicalItem list"

text \<open>The reason of a rejection: an \<^verbatim>\<open>Error\<close> with its message, or another value with
  its \<^verbatim>\<open>String(reason)\<close>.\<close>

datatype Reason = ErrorObject string | OtherValue string


datatype FetchOutcome = Fulfilled SourceFetchResult | RejectedWith Reason







section \<open>Snapshot store (metaforgeStore.ts)\<close>

text \<open>
  The SQLite database as the store uses it.  \<open>tables\<close> are the rows the connection
  reads and writes; while a transaction is open, \<open>saved\<close> holds the rows as they
  were at \<^verbatim>\<open>BEGIN\<close>, which \<^verbatim>\<open>ROLLBACK\<close> puts back and \<^verbatim>\<open>COMMIT\<close> drops.  A
  statement that fails changes no row and leaves the transaction open.  Besides the
  constraint violations of the schema, any statement may fail for a reason outside
  the program (disk, lock): \<open>faults k\<close> says whether the \<open>k\<close>-th statement executed
  on the connection does.  \<^verbatim>\<open>ROLLBACK\<close> of an open transaction does not fail.
  A stored text is the JSON value it parses to, \<open>None\<close> for a text that does not
  parse.
\<close>

record ItemRow =
  row_id :: string
  row_name :: "string option"
  row_item_type :: "string option"
  row_rarity :: "string option"
  row_value :: "rat option"
  row_weight :: "rat option"
  row_icon :: "string option"
  row_updated_at :: "string option"
  row_cached_at :: string
  row_raw_json :: "json option"

record LinkRow =
  link_item_id :: string
  link_relation :: string
  link_related_item_id :: "string option"
  link_related_name :: "string option"
  link_quantity :: "rat option"
  link_payload_json :: json

record SyncStateRow =
  last_synced_at :: string
  version :: string
  item_count :: nat

record Tables =
  metaforge_items :: "ItemRow list"
  metaforge_item_links :: "LinkRow list"
  metaforge_sync_state :: "SyncStateRow option"

record Database =
  tables :: Tables
  saved :: "Tables option"
  executed :: nat

datatype DbError = SqlError string | FetchError Reason

type_synonym 'a DbResult = "(DbError \<times> Database) + 'a"

text \<open>One statement: it fails when the fault plan says so, and otherwise does what
  \<open>op\<close> does.  Either way it counts as executed.\<close>

definition statement ::
  "(nat \<Rightarrow> bool) \<Rightarrow> (Database \<Rightarrow> Database DbResult) \<Rightarrow> Database \<Rightarrow> Database DbResult" where
  "statement faults op db =
     (let counted = db \<lparr> executed := executed db + 1 \<rparr>
      in if faults (executed db) then Inl (SqlError ''disk I/O error'', counted)
         else op counted)"

definition exec_begin :: "(nat \<Rightarrow> bool) \<Rightarrow> Database \<Rightarrow> Database DbResult" where
  "exec_begin faults =
     statement faults
       (\<lambda>db. case saved db of
               Some snapshot \<Rightarrow>
                 Inl (SqlError ''cannot start a transaction within a transaction'', db)
             | None \<Rightarrow> Inr (db \<lparr> saved := Some (tables db) \<rparr>))"

definition exec_commit :: "(nat \<Rightarrow> bool) \<Rightarrow> Database \<Rightarrow> Database DbResult" where
  "exec_commit faults =
     statement faults
       (\<lambda>db. case saved db of
               None \<Rightarrow> Inl (SqlError ''cannot commit - no transaction is active'', db)
             | Some snapshot \<Rightarrow> Inr (db \<lparr> saved := None \<rparr>))"

definition exec_rollback :: "Database \<Rightarrow> Database DbResult" where
  "exec_rollback db =
     (case saved db of
        None \<Rightarrow>
          Inl (SqlError ''cannot rollback - no transaction is active'',
               db \<lparr> executed := executed db + 1 \<rparr>)
      | Some snapshot \<Rightarrow>
          Inr (db \<lparr> tables := snapshot, saved := None, executed := executed db + 1 \<rparr>))"

definition exec_delete_links :: "(nat \<Rightarrow> bool) \<Rightarrow> Database \<Rightarrow> Database DbResult" where
  "exec_delete_links faults =
     statement faults (\<lambda>db. Inr (db \<lparr> tables := (tables db) \<lparr> metaforge_item_links := [] \<rparr> \<rparr>))"

text \<open>Deleting the items also deletes their links (\<^verbatim>\<open>ON DELETE CASCADE\<close>).\<close>

definition exec_delete_items :: "(nat \<Rightarrow> bool) \<Rightarrow> Database \<Rightarrow> Database DbResult" where
  "exec_delete_items faults =
     statement faults
       (\<lambda>db. Inr (db \<lparr> tables := (tables db) \<lparr> metaforge_items := [], metaforge_item_links := [] \<rparr> \<rparr>))"

text \<open>\<^verbatim>\<open>id TEXT PRIMARY KEY\<close>: a second row with an id already in the table is refused.\<close>

definition insertItem_run :: "(nat \<Rightarrow> bool) \<Rightarrow> ItemRow \<Rightarrow> Database \<Rightarrow> Database DbResult" where
  "insertItem_run faults row =
     statement faults
       (\<lambda>db. if row_id row \<in> set (map row_id (metaforge_items (tables db)))
             then Inl (SqlError ''UNIQUE constraint failed: metaforge_items.id'', db)
             else Inr (db \<lparr> tables := (tables db)
                         \<lparr> metaforge_items := metaforge_items (tables db) @ [row] \<rparr> \<rparr>))"

text \<open>\<^verbatim>\<open>FOREIGN KEY(item_id) REFERENCES metaforge_items(id)\<close>.\<close>

definition insertLink_run :: "(nat \<Rightarrow> bool) \<Rightarrow> LinkRow \<Rightarrow> Database \<Rightarrow> Database DbResult" where
  "insertLink_run faults row =
     statement faults
       (\<lambda>db. if link_item_id row \<notin> set (map row_id (metaforge_items (tables db)))
             then Inl (SqlError ''FOREIGN KEY constraint failed'', db)
             else Inr (db \<lparr> tables := (tables db)
                         \<lparr> metaforge_item_links := metaforge_item_links (tables db) @ [row] \<rparr> \<rparr>))"

text \<open>\<^verbatim>\<open>INSERT ... ON CONFLICT(id) DO UPDATE\<close> on the one row of the sync state.\<close>

definition writeState_run :: "(nat \<Rightarrow> bool) \<Rightarrow> SyncStateRow \<Rightarrow> Database \<Rightarrow> Database DbResult" where
  "writeState_run faults row =
     statement faults
       (\<lambda>db. Inr (db \<lparr> tables := (tables db) \<lparr> metaforge_sync_state := Some row \<rparr> \<rparr>))"

text \<open>Sequencing inside the \<^verbatim>\<open>try\<close> block: the first failure ends it.\<close>

definition andThen :: "Database DbResult \<Rightarrow> (Database \<Rightarrow> Database DbResult) \<Rightarrow> Database DbResult" where
  "andThen r f = (case r of Inl failure \<Rightarrow> Inl failure | Inr db \<Rightarrow> f db)"

text \<open>\<^verbatim>\<open>JSON.parse(JSON.stringify(v))\<close>: a property whose value is \<^verbatim>\<open>undefined\<close> is left
  out, an \<^verbatim>\<open>undefined\<close> array element becomes \<^verbatim>\<open>null\<close>.\<close>

fun stringifyParse :: "json \<Rightarrow> json" where
  "stringifyParse (JArr xs) =
     JArr (map (\<lambda>x. if x = JUndefined then JNull else stringifyParse x) xs)"
| "stringifyParse (JObj kvs) =
     JObj (map (\<lambda>kv. (fst kv, stringifyParse (snd kv))) (filter (\<lambda>kv. snd kv \<noteq> JUndefined) kvs))"
| "stringifyParse v = v"

definition toRecord :: "json \<Rightarrow> json" where
  "toRecord v = (if isObject v then v else JUndefined)"

definition numberOrUndefined :: "JsRuntime \<Rightarrow> json \<Rightarrow> rat option" where
  "numberOrUndefined rt v =
     (case v of JNum x \<Rightarrow> Some x | JStr s \<Rightarrow> stringToNumber rt s | _ \<Rightarrow> None)"

definition textOrNull :: "json \<Rightarrow> string option" where
  "textOrNull v =
     (case v of
        JStr s \<Rightarrow> (let trimmed = trim s in if length trimmed > 0 then Some trimmed else None)
      | _ \<Rightarrow> None)"

definition arrayOrEmpty :: "json \<Rightarrow> json list" where
  "arrayOrEmpty v = (case v of JArr xs \<Rightarrow> xs | _ \<Rightarrow> [])"

definition quantityOf :: "JsRuntime \<Rightarrow> json \<Rightarrow> rat option" where
  "quantityOf rt object =
     Some (case orElse (numberOrUndefined rt (field object ''quantity''))
                  (orElse (numberOrUndefined rt (field object ''amount''))
                     (numberOrUndefined rt (field object ''count''))) of
             None \<Rightarrow> 1 | Some x \<Rightarrow> x)"

definition nestedLink :: "JsRuntime \<Rightarrow> string \<Rightarrow> string \<Rightarrow> string \<Rightarrow> json \<Rightarrow> LinkRow" where
  "nestedLink rt ident relation nestedKey entry =
     (let object = toRecord entry;
          nested = toRecord (field object nestedKey)
      in \<lparr> link_item_id = ident, link_relation = relation,
           link_related_item_id = orElse (textOrNull (field nested ''id'')) (textOrNull (field object ''id'')),
           link_related_name = orElse (textOrNull (field nested ''name'')) (textOrNull (field object ''name'')),
           link_quantity = quantityOf rt object,
           link_payload_json = stringifyParse entry \<rparr>)"

definition soldByLink :: "JsRuntime \<Rightarrow> string \<Rightarrow> json \<Rightarrow> LinkRow" where
  "soldByLink rt ident entry =
     (let object = toRecord entry
      in \<lparr> link_item_id = ident, link_relation = ''sold_by'',
           link_related_item_id = None,
           link_related_name = orElse (textOrNull (field object ''trader_name''))
                                 (textOrNull (field object ''vendor'')),
           link_quantity = numberOrUndefined rt (field object ''price''),
           link_payload_json = stringifyParse entry \<rparr>)"

text \<open>\<open>extractLinks\<close>, each link already carrying the id of its item.\<close>

definition extractLinks :: "JsRuntime \<Rightarrow> string \<Rightarrow> json \<Rightarrow> LinkRow list" where
  "extractLinks rt ident item =
     map (nestedLink rt ident ''components'' ''component'') (arrayOrEmpty (field item ''components''))
     @ map (nestedLink rt ident ''recycle_components'' ''component'')
         (arrayOrEmpty (field item ''recycle_components''))
     @ map (nestedLink rt ident ''recycle_from'' ''item'') (arrayOrEmpty (field item ''recycle_from''))
     @ map (nestedLink rt ident ''used_in'' ''item'') (arrayOrEmpty (field item ''used_in''))
     @ map (soldByLink rt ident) (arrayOrEmpty (field item ''sold_by''))"

definition itemRowOf :: "JsRuntime \<Rightarrow> string \<Rightarrow> string \<Rightarrow> json \<Rightarrow> ItemRow" where
  "itemRowOf rt cachedAt ident item =
     \<lparr> row_id = ident,
       row_name = textOrNull (field item ''name''),
       row_item_type = textOrNull (field item ''item_type''),
       row_rarity = textOrNull (field item ''rarity''),
       row_value = numberOrUndefined rt (field item ''value''),
       row_weight = orElse (numberOrUndefined rt (field (toRecord (field item ''stat_block'')) ''weight''))
                      (numberOrUndefined rt (field item ''weight'')),
       row_icon = textOrNull (field item ''icon''),
       row_updated_at = textOrNull (field item ''updated_at''),
       row_cached_at = cachedAt,
       row_raw_json = Some (stringifyParse item) \<rparr>"

text \<open>The loops of \<open>persistFetchResult\<close> over the links of an item and over the raw
  items, and the statements between \<^verbatim>\<open>try {\<close> and \<^verbatim>\<open>} catch\<close> (\<open>tryBlock\<close>).\<close>

fun insertLinks :: "(nat \<Rightarrow> bool) \<Rightarrow> LinkRow list \<Rightarrow> Database \<Rightarrow> Database DbResult" where
  "insertLinks faults [] db = Inr db"
| "insertLinks faults (link # links) db =
     andThen (insertLink_run faults link db) (insertLinks faults links)"

fun insertItems :: "JsRuntime \<Rightarrow> (nat \<Rightarrow> bool) \<Rightarrow> string \<Rightarrow> json list \<Rightarrow> Database \<Rightarrow> Database DbResult" where
  "insertItems rt faults cachedAt [] db = Inr db"
| "insertItems rt faults cachedAt (item # rest) db =
     (case textOrNull (field item ''id'') of
        None \<Rightarrow> insertItems rt faults cachedAt rest db
      | Some ident \<Rightarrow>
          andThen
            (andThen (insertItem_run faults (itemRowOf rt cachedAt ident item) db)
               (insertLinks faults (extractLinks rt ident item)))
            (insertItems rt faults cachedAt rest))"

definition tryBlock :: "JsRuntime \<Rightarrow> (nat \<Rightarrow> bool) \<Rightarrow> SourceFetchResult \<Rightarrow> Database \<Rightarrow> Database DbResult" where
  "tryBlock rt faults fetchResult db =
     (let rawItems = filter isObject (itemsRaw fetchResult)
      in andThen
           (andThen
              (andThen
                 (andThen (exec_delete_links faults db) (exec_delete_items faults))
                 (insertItems rt faults (fetchedAt fetchResult) rawItems))
              (writeState_run faults
                 \<lparr> last_synced_at = fetchedAt fetchResult, version = versionOrCommit fetchResult,
                   item_count = length rawItems \<rparr>))
           (exec_commit faults))"

definition persistFetchResult ::
  "JsRuntime \<Rightarrow> (nat \<Rightarrow> bool) \<Rightarrow> Database \<Rightarrow> SourceFetchResult \<Rightarrow> (DbError + unit) \<times> Database" where
  "persistFetchResult rt faults db fetchResult =
     (case exec_begin faults db of
        Inl (err, db0) \<Rightarrow> (Inl err, db0)
      | Inr db1 \<Rightarrow>
          (case tryBlock rt faults fetchResult db1 of
             Inr db2 \<Rightarrow> (Inr (), db2)
           | Inl (err, failed) \<Rightarrow>
               (case exec_rollback failed of
                  Inl (err2, db3) \<Rightarrow> (Inl err2, db3)
                | Inr db3 \<Rightarrow> (Inl err, db3))))"

definition getSyncState :: "Database \<Rightarrow> SyncStateRow option" where
  "getSyncState db = metaforge_sync_state (tables db)"

text \<open>\<^verbatim>\<open>ORDER BY name COLLATE NOCASE ASC\<close>: \<^verbatim>\<open>NULL\<close> first, then by the code units of the
  name with \<^verbatim>\<open>A-Z\<close> folded to lower case.  SQL leaves the order of rows with equal
  keys open; they are taken in the order of insertion here.\<close>

definition nocaseCompare :: "string option \<Rightarrow> string option \<Rightarrow> int" where
  "nocaseCompare a b =
     (case a of
        None \<Rightarrow> (case b of None \<Rightarrow> 0 | Some y \<Rightarrow> - 1)
      | Some x \<Rightarrow>
          (case b of
             None \<Rightarrow> 1
           | Some y \<Rightarrow>
               (let kx = map (of_char :: char \<Rightarrow> nat) (toLowerCase x);
                    ky = map (of_char :: char \<Rightarrow> nat) (toLowerCase y)
                in if kx < ky then - 1 else if kx = ky then 0 else 1)))"

definition readItemsRaw :: "Database \<Rightarrow> json list" where
  "readItemsRaw db =
     List.map_filter row_raw_json
       (sortBy (\<lambda>a b. nocaseCompare (row_name a) (row_name b)) (metaforge_items (tables db)))"

text \<open>
  \<open>dateMs\<close> is \<^verbatim>\<open>new Date(s).getTime()\<close>, \<open>None\<close> for \<^verbatim>\<open>NaN\<close> (every comparison with
  it is false); \<open>fetched\<close> is how the connector's fetch settles if it is started.
\<close>

definition isStale :: "(string \<Rightarrow> int option) \<Rightarrow> int \<Rightarrow> int \<Rightarrow> Database \<Rightarrow> bool" where
  "isStale dateMs syncIntervalMs nowMs db =
     (case getSyncState db of
        None \<Rightarrow> True
      | Some state \<Rightarrow>
          (case dateMs (last_synced_at state) of
             None \<Rightarrow> False
           | Some t \<Rightarrow> nowMs - t \<ge> syncIntervalMs))"

definition ensureFreshMetaForgeSnapshot ::
  "JsRuntime \<Rightarrow> (nat \<Rightarrow> bool) \<Rightarrow> (string \<Rightarrow> int option) \<Rightarrow> int \<Rightarrow> int \<Rightarrow> FetchOutcome \<Rightarrow> Database
     \<Rightarrow> (DbError + unit) \<times> Database" where
  "ensureFreshMetaForgeSnapshot rt faults dateMs syncIntervalMs nowMs fetched db =
     (if \<not> isStale dateMs syncIntervalMs nowMs db then (Inr (), db)
      else (case fetched of
              RejectedWith reason \<Rightarrow> (Inl (FetchError reason), db)
            | Fulfilled fetchResult \<Rightarrow> persistFetchResult rt faults db fetchResult))"

definition storeResponse :: "JsRuntime \<Rightarrow> rat \<Rightarrow> string \<Rightarrow> string \<Rightarrow> Database \<Rightarrow> DiffDataResponse" where
  "storeResponse rt fuzzyMatchThreshold fallbackNow generatedNow db =
     (let state = getSyncState db;
          resultLike =
            \<lparr> resultSourceId = Metaforge,
              fetchedAt = (case state of None \<Rightarrow> fallbackNow | Some st \<Rightarrow> last_synced_at st),
              versionOrCommit = (case state of None \<Rightarrow> ''unknown'' | Some st \<Rightarrow> version st),
              itemsRaw = readItemsRaw db \<rparr>;
          normalized = normalizeSourceFetch rt resultLike
      in \<lparr> generatedAt = generatedNow,
           enabledSources = [Metaforge],
           sourceSummaries =
             [\<lparr> summarySourceId = Metaforge, summaryFetchedAt = fetchedAt resultLike,
                summaryVersion = versionOrCommit resultLike,
                itemCount = length normalized, summaryError = None \<rparr>],
           canonicalItems =
             mergeAndDiffItems rt [Metaforge \<mapsto> normalized] [Metaforge] fuzzyMatchThreshold \<rparr>)"

definition buildMetaForgeDataFromStore ::
  "JsRuntime \<Rightarrow> (nat \<Rightarrow> bool) \<Rightarrow> (string \<Rightarrow> int option) \<Rightarrow> int \<Rightarrow> rat \<Rightarrow> int \<Rightarrow> string \<Rightarrow> string
     \<Rightarrow> FetchOutcome \<Rightarrow> Database \<Rightarrow> (DbError + DiffDataResponse) \<times> Database" where
  "buildMetaForgeDataFromStore rt faults dateMs syncIntervalMs fuzzyMatchThreshold nowMs
       fallbackNow generatedNow fetched db =
     (case ensureFreshMetaForgeSnapshot rt faults dateMs syncIntervalMs nowMs fetched db of
        (Inl err, db') \<Rightarrow> (Inl err, db')
      | (Inr ok, db') \<Rightarrow>
          (Inr (storeResponse rt fuzzyMatchThreshold fallbackNow generatedNow db'), db'))"

section \<open>A concrete runtime for closed examples\<close>

text \<open>
  \<open>asciiCollate\<close> follows the default (root) collation that \<^verbatim>\<open>localeCompare\<close>
  applies without options: spaces sort before digits, digits before letters; letters
  are first compared without regard to case, and only when two strings are equal at
  that level does the first difference in case decide, lower case first.  The
  relative order of punctuation marks among themselves is by code unit here, which
  is not the order of the host's collation tables.
\<close>

definition primaryWeight :: "char \<Rightarrow> nat" where
  "primaryWeight c =
     (let n = (of_char (toLowerChar c) :: nat)
      in if n = 32 then 1
         else if 48 \<le> n \<and> n \<le> 57 then 300 + (n - 48)
         else if 97 \<le> n \<and> n \<le> 122 then 400 + (n - 97)
         else 2 + n)"

definition caseWeight :: "char \<Rightarrow> nat" where
  "caseWeight c = (if isUpper c then 1 else 0)"

definition collationKey :: "string \<Rightarrow> nat list \<times> nat list" where
  "collationKey s = (map primaryWeight s, map caseWeight s)"

definition asciiCollate :: "string \<Rightarrow> string \<Rightarrow> int" where
  "asciiCollate a b =
     (if collationKey a < collationKey b then - 1
      else if collationKey a = collationKey b then 0 else 1)"

text \<open>Decimal rendering: exact for integers; of a fraction, at most 16 fractional
  digits are written and no exponent notation is used.\<close>

fun fractionDigits :: "nat \<Rightarrow> rat \<Rightarrow> string" where
  "fractionDigits 0 x = []"
| "fractionDigits (Suc fuel) x =
     (if x = 0 then []
      else char_of (48 + nat \<lfloor>x * 10\<rfloor>) # fractionDigits fuel (x * 10 - of_int \<lfloor>x * 10\<rfloor>))"

definition decimalString :: "rat \<Rightarrow> string" where
  "decimalString x =
     (let a = \<bar>x\<bar>; whole = \<lfloor>a\<rfloor>; frac = a - of_int whole
      in (if x < 0 then ''-'' else [])
         @ natToString (nat whole)
         @ (if frac = 0 then [] else ''.'' @ fractionDigits 16 frac))"

text \<open>\<^verbatim>\<open>Number(s)\<close> for an unsigned decimal integer literal; every other string is
  treated as not a number here (the host also reads signs, fractions, exponents and
  hexadecimal literals).\<close>

definition isDigit :: "char \<Rightarrow> bool" where
  "isDigit c = (48 \<le> (of_char c :: nat) \<and> (of_char c :: nat) \<le> 57)"

definition decimalLiteral :: "string \<Rightarrow> rat option" where
  "decimalLiteral s =
     (if s \<noteq> [] \<and> list_all isDigit s
      then Some (of_nat (foldl (\<lambda>acc c. acc * 10 + ((of_char c :: nat) - 48)) 0 s))
      else None)"

definition asciiRuntime :: JsRuntime where
  "asciiRuntime =
     \<lparr> localeCompare = asciiCollate, numberToString = decimalString,
       stringToNumber = decimalLiteral \<rparr>"

section \<open>Concrete inputs for the closed examples\<close>

definition mkItem :: "SourceId \<Rightarrow> string option \<Rightarrow> string option \<Rightarrow> SourceItem" where
  "mkItem sid ident shown =
     \<lparr> sourceId = sid, sourceItemId = ident, name = shown, itemType = None, rarity = None,
       itemValue = None, weight = None, inputs = None, outputs = None, raw = JNull \<rparr>"

definition clampItemA :: SourceItem where
  "clampItemA =
     \<lparr> sourceId = Ardb, sourceItemId = Some ''bat'', name = Some ''Battery'',
       itemType = Some ''Part'', rarity = Some ''Common'', itemValue = Some 10, weight = Some 1,
       inputs = Some [\<lparr> itemId = Some ''wire'', partName = None, amount = 2 \<rparr>], outputs = None,
       raw = JNull \<rparr>"

definition clampItemB :: SourceItem where
  "clampItemB =
     \<lparr> sourceId = Metaforge, sourceItemId = Some ''bat'', name = Some ''Batery'',
       itemType = Some ''Gear'', rarity = Some ''Rare'', itemValue = Some 12, weight = Some 2,
       inputs = None, outputs = None, raw = JNull \<rparr>"

definition clampItem :: CanonicalItem where
  "clampItem =
     \<lparr> canonicalId = ''canonical-1'', nameKey = ''battery'', displayName = ''Battery'',
       bySource = [Ardb \<mapsto> clampItemA, Metaforge \<mapsto> clampItemB],
       matchDetails = Map.empty, diffReport = emptyDiffReport \<rparr>"

definition clampSources :: "SourceId list" where
  "clampSources = [Ardb, Metaforge, Raidtheory, Mahcks, Raidtheory, Mahcks, Raidtheory, Mahcks]"

section \<open>The differing rule in the specification's words\<close>


section \<open>Memoized TTL cache (lib/cache.ts)\<close>

text \<open>
  \<open>getOrSet\<close> runs in two synchronous pieces: the part before \<^verbatim>\<open>await inflight\<close>
  (\<open>getOrSet_call\<close>) and the continuation that runs once the awaited promise has
  settled (\<open>getOrSet_resume\<close>).  A promise is named by a number; \<open>fresh\<close> is the
  promise \<^verbatim>\<open>producer()\<close> returns if it is called.  A value of type \<^verbatim>\<open>T\<close> may be
  \<^verbatim>\<open>undefined\<close>, which is \<open>None\<close>; an absent \<^verbatim>\<open>value\<close> property reads as
  \<^verbatim>\<open>undefined\<close> too.
\<close>

record 'v CacheEntry =
  expiresAt :: int
  cachedValue :: "'v option"
  inflight :: "nat option"

type_synonym 'v MemoryCache = "string \<rightharpoonup> 'v CacheEntry"

datatype 'v CallOutcome =
    Hit 'v
  | Joined nat
  | Started nat

datatype 'v Settled =
    Resolved "'v option"
  | Rejected string

definition getOrSet_call ::
  "'v MemoryCache \<Rightarrow> string \<Rightarrow> int \<Rightarrow> int \<Rightarrow> nat \<Rightarrow> 'v CallOutcome \<times> 'v MemoryCache" where
  "getOrSet_call m key ttlMs now fresh =
     (let existing = m key;
          started = (Started fresh,
                     m(key \<mapsto> \<lparr> expiresAt = now + ttlMs, cachedValue = None,
                                 inflight = Some fresh \<rparr>))
      in case existing of
           None \<Rightarrow> started
         | Some e \<Rightarrow>
             (case cachedValue e of
                Some v \<Rightarrow>
                  if expiresAt e > now then (Hit v, m)
                  else (case inflight e of Some p \<Rightarrow> (Joined p, m) | None \<Rightarrow> started)
              | None \<Rightarrow> (case inflight e of Some p \<Rightarrow> (Joined p, m) | None \<Rightarrow> started)))"

definition getOrSet_resume ::
  "'v MemoryCache \<Rightarrow> string \<Rightarrow> int \<Rightarrow> int \<Rightarrow> 'v Settled \<Rightarrow> 'v MemoryCache \<times> (string + 'v option)" where
  "getOrSet_resume m key ttlMs now settled =
     (case settled of
        Resolved v \<Rightarrow>
          (m(key \<mapsto> \<lparr> expiresAt = now + ttlMs, cachedValue = v, inflight = None \<rparr>), Inr v)
      | Rejected err \<Rightarrow> (m(key := None), Inl err))"

text \<open>A caller that was handed the promise already in flight settles as that promise does.\<close>

definition joinedResult :: "'v Settled \<Rightarrow> string + 'v option" where
  "joinedResult settled = (case settled of Resolved v \<Rightarrow> Inr v | Rejected err \<Rightarrow> Inl err)"

text \<open>What else happens on the cache between two points of interest: a list of calls
  and continuations, each with the key it works on.\<close>

datatype 'v CacheEvent =
    CallEvent string int int nat
  | ResumeEvent string int int "'v Settled"

fun eventKey :: "'v CacheEvent \<Rightarrow> string" where
  "eventKey (CallEvent key ttlMs now fresh) = key"
| "eventKey (ResumeEvent key ttlMs now settled) = key"

fun cacheStep :: "'v MemoryCache \<Rightarrow> 'v CacheEvent \<Rightarrow> 'v MemoryCache" where
  "cacheStep m (CallEvent key ttlMs now fresh) = snd (getOrSet_call m key ttlMs now fresh)"
| "cacheStep m (ResumeEvent key ttlMs now settled) = fst (getOrSet_resume m key ttlMs now settled)"

definition cacheRun :: "'v MemoryCache \<Rightarrow> 'v CacheEvent list \<Rightarrow> 'v MemoryCache" where
  "cacheRun m events = foldl cacheStep m events"

definition otherKeyEvents :: "nat CacheEvent list" where
  "otherKeyEvents =
     [CallEvent ''icon:a'' 1000 5 7, ResumeEvent ''icon:a'' 1000 9 (Resolved (Some 3)),
      CallEvent ''metaforge-data'' 1000 10 8, ResumeEvent ''metaforge-data'' 1000 11 (Rejected ''down'')]"

section \<open>What the sorting claims assume of the host's comparison\<close>




definition twoProviderInput :: "SourceId \<rightharpoonup> SourceItem list" where
  "twoProviderInput =
     [Ardb \<mapsto> [mkItem Ardb None (Some ''A''), mkItem Ardb None (Some ''a'')],
      Metaforge \<mapsto> [mkItem Metaforge (Some ''x'') (Some ''a!''), mkItem Metaforge (Some ''x'') None]]"



section \<open>Vocabulary of the resolver claims\<close>

text \<open>The items the canonical entities hold for one provider, in list order.\<close>

definition slots :: "SourceId \<Rightarrow> CanonicalItem list \<Rightarrow> SourceItem list" where
  "slots s cs = List.map_filter (\<lambda>c. bySource c s) cs"

text \<open>A candidate of the fuzzy fallback: an existing canonical entity without an entry
  for the provider and without an id-key.\<close>

definition eligible :: "CanonicalItem list \<Rightarrow> SourceId \<Rightarrow> nat \<Rightarrow> bool" where
  "eligible cs sid i = (bySource (cs ! i) sid = None \<and> \<not> startsWith (nameKey (cs ! i)) ''id:'')"

text \<open>Every index stored in the name index points into the list of canonical entities.\<close>

definition indexInRange :: "ResolverState \<Rightarrow> bool" where
  "indexInRange st = (\<forall>key l. snd st key = Some l \<longrightarrow> (\<forall>i\<in>set l. i < length (fst st)))"

definition zeroInput :: "SourceId \<rightharpoonup> SourceItem list" where
  "zeroInput = [Ardb \<mapsto> [mkItem Ardb None (Some ''abc'')], Metaforge \<mapsto> [mkItem Metaforge None (Some ''xyz'')]]"

definition fuzzyInput :: "SourceId \<rightharpoonup> SourceItem list" where
  "fuzzyInput =
     [Ardb \<mapsto> [mkItem Ardb None (Some ''Quick Battery''), mkItem Ardb None (Some ''Quick Batterx'')],
      Metaforge \<mapsto> [mkItem Metaforge None (Some ''Quik Battery'')]]"

definition repeatedInput :: "SourceId \<rightharpoonup> SourceItem list" where
  "repeatedInput = [Ardb \<mapsto> [mkItem Ardb (Some ''1'') (Some ''Wire'')]]"

text \<open>The count a token has in the \<^verbatim>\<open>Map\<close> of \<open>similarity\<close>: \<^verbatim>\<open>counts.get(token) ?? 0\<close>.\<close>

definition cnt :: "(string \<rightharpoonup> nat) \<Rightarrow> string \<Rightarrow> nat" where
  "cnt m t = (case m t of None \<Rightarrow> 0 | Some c \<Rightarrow> c)"


section \<open>Vocabulary of the snapshot claim\<close>

text \<open>The raw items of a fetch that get a row: the objects with a non-blank id, in order.\<close>

definition identified :: "SourceFetchResult \<Rightarrow> (string \<times> json) list" where
  "identified fetchResult =
     List.map_filter (\<lambda>item. map_option (\<lambda>ident. (ident, item)) (textOrNull (field item ''id'')))
       (filter isObject (itemsRaw fetchResult))"

definition rowsOf :: "JsRuntime \<Rightarrow> SourceFetchResult \<Rightarrow> ItemRow list" where
  "rowsOf rt fetchResult =
     map (\<lambda>p. itemRowOf rt (fetchedAt fetchResult) (fst p) (snd p)) (identified fetchResult)"

definition linksOf :: "JsRuntime \<Rightarrow> SourceFetchResult \<Rightarrow> LinkRow list" where
  "linksOf rt fetchResult = concat (map (\<lambda>p. extractLinks rt (fst p) (snd p)) (identified fetchResult))"

definition emptyDatabase :: Database where
  "emptyDatabase =
     \<lparr> tables = \<lparr> metaforge_items = [], metaforge_item_links = [], metaforge_sync_state = None \<rparr>,
       saved = None, executed = 0 \<rparr>"

definition firstFetch :: SourceFetchResult where
  "firstFetch =
     \<lparr> resultSourceId = Metaforge, fetchedAt = ''t1'', versionOrCommit = ''v1'',
       itemsRaw =
         [JObj [(''id'', JStr ''bat''), (''name'', JStr ''Battery''),
                (''components'',
                 JArr [JObj [(''component'', JObj [(''id'', JStr ''wire'')]), (''quantity'', JNum 2)]])],
          JNull] \<rparr>"

definition duplicateFetch :: SourceFetchResult where
  "duplicateFetch =
     \<lparr> resultSourceId = Metaforge, fetchedAt = ''t2'', versionOrCommit = ''v2'',
       itemsRaw = [JObj [(''id'', JStr ''a'')], JObj [(''id'', JStr '' a '')]] \<rparr>"

definition seededDatabase :: Database where
  "seededDatabase = snd (persistFetchResult asciiRuntime (\<lambda>k. False) emptyDatabase firstFetch)"

text \<open>A step result that is still inside the transaction begun at the rows \<open>snapshot\<close>.\<close>

definition inTransaction :: "Tables \<Rightarrow> Database DbResult \<Rightarrow> bool" where
  "inTransaction snapshot r =
     (case r of Inl failure \<Rightarrow> saved (snd failure) = Some snapshot | Inr db \<Rightarrow> saved db = Some snapshot)"

definition identifiedIn :: "json list \<Rightarrow> (string \<times> json) list" where
  "identifiedIn items =
     List.map_filter (\<lambda>item. map_option (\<lambda>ident. (ident, item)) (textOrNull (field item ''id''))) items"

section \<open>Verified properties\<close>

subsection \<open>Projections of the diff report\<close>

lemma missingIn_buildDiffReport:
  "missingIn (buildDiffReport rt item srcs) = absentIn item srcs"
  by (simp add: buildDiffReport_def Let_def)

lemma fieldDiffers_buildDiffReport:
  "fieldDiffers (buildDiffReport rt item srcs) = fieldFlags item (presentIn item srcs)"
  by (simp add: buildDiffReport_def Let_def)

lemma recipeDiffers_buildDiffReport:
  "recipeDiffers (buildDiffReport rt item srcs) = recipeFlag rt item (presentIn item srcs)"
  by (simp add: buildDiffReport_def Let_def)

lemma severity_buildDiffReport:
  "severity (buildDiffReport rt item srcs) =
     severityOf (absentIn item srcs) (fieldFlags item (presentIn item srcs))
       (recipeFlag rt item (presentIn item srcs))"
  by (simp add: buildDiffReport_def Let_def)

subsection \<open>Severity\<close>

lemma severityOf_bounds: "0 \<le> severityOf m fd rd \<and> severityOf m fd rd \<le> 100"
  by (simp add: severityOf_def)

lemma severityOf_six: "6 \<le> length m \<Longrightarrow> severityOf m fd rd = 100"
  by (simp add: severityOf_def)

text \<open>
  Claim C6.  For every canonical item and provider list, the severity of the diff
  report is \<open>min 100\<close> of 18 per missing provider plus 10, 8, 8, 12, 12 and 20 for a
  differing name, type, rarity, value, weight and recipe; it lies between 0 and 100,
  and an item missing from six providers reports exactly 100.
\<close>

theorem severity_formula_clamped:
  "severity (buildDiffReport rt item srcs) =
     min 100 (18 * int (length (missingIn (buildDiffReport rt item srcs)))
       + (if nameDiffers (fieldDiffers (buildDiffReport rt item srcs)) then 10 else 0)
       + (if typeDiffers (fieldDiffers (buildDiffReport rt item srcs)) then 8 else 0)
       + (if rarityDiffers (fieldDiffers (buildDiffReport rt item srcs)) then 8 else 0)
       + (if valueDiffers (fieldDiffers (buildDiffReport rt item srcs)) then 12 else 0)
       + (if weightDiffers (fieldDiffers (buildDiffReport rt item srcs)) then 12 else 0)
       + (if recipeDiffers (buildDiffReport rt item srcs) then 20 else 0))
   \<and> 0 \<le> severity (buildDiffReport rt item srcs)
   \<and> severity (buildDiffReport rt item srcs) \<le> 100
   \<and> (6 \<le> length (missingIn (buildDiffReport rt item srcs))
        \<longrightarrow> severity (buildDiffReport rt item srcs) = 100)"
proof -
  have "severity (buildDiffReport rt item srcs) =
      severityOf (missingIn (buildDiffReport rt item srcs))
        (fieldDiffers (buildDiffReport rt item srcs)) (recipeDiffers (buildDiffReport rt item srcs))"
    by (simp only: severity_buildDiffReport missingIn_buildDiffReport
        fieldDiffers_buildDiffReport recipeDiffers_buildDiffReport)
  then show ?thesis
    using severityOf_bounds severityOf_six by (simp add: severityOf_def)
qed

lemma clampItem_report:
  "buildDiffReport asciiRuntime clampItem clampSources =
     \<lparr> missingIn = [Raidtheory, Mahcks, Raidtheory, Mahcks, Raidtheory, Mahcks],
       fieldDiffers = \<lparr> nameDiffers = True, typeDiffers = True, rarityDiffers = True,
                        valueDiffers = True, weightDiffers = True \<rparr>,
       recipeDiffers = True, severity = 100,
       explanation =
         [''Missing in: raidtheory, mahcks, raidtheory, mahcks, raidtheory, mahcks'',
          ''Name differs: ardb=Battery, metaforge=Batery, raidtheory=-, mahcks=-, raidtheory=-, mahcks=-, raidtheory=-, mahcks=-'',
          ''Type differs: ardb=Part, metaforge=Gear, raidtheory=-, mahcks=-, raidtheory=-, mahcks=-, raidtheory=-, mahcks=-'',
          ''Rarity differs: ardb=Common, metaforge=Rare, raidtheory=-, mahcks=-, raidtheory=-, mahcks=-, raidtheory=-, mahcks=-'',
          ''Value differs: ardb=10, metaforge=12, raidtheory=-, mahcks=-, raidtheory=-, mahcks=-, raidtheory=-, mahcks=-'',
          ''Weight differs: ardb=1, metaforge=2, raidtheory=-, mahcks=-, raidtheory=-, mahcks=-, raidtheory=-, mahcks=-'',
          ''Recipe differs (inputs/outputs are not equivalent).''] \<rparr>"
  by code_simp

theorem severity_formula_clamped_witness:
  "length (missingIn (buildDiffReport asciiRuntime clampItem clampSources)) = 6
   \<and> nameDiffers (fieldDiffers (buildDiffReport asciiRuntime clampItem clampSources))
   \<and> typeDiffers (fieldDiffers (buildDiffReport asciiRuntime clampItem clampSources))
   \<and> rarityDiffers (fieldDiffers (buildDiffReport asciiRuntime clampItem clampSources))
   \<and> valueDiffers (fieldDiffers (buildDiffReport asciiRuntime clampItem clampSources))
   \<and> weightDiffers (fieldDiffers (buildDiffReport asciiRuntime clampItem clampSources))
   \<and> recipeDiffers (buildDiffReport asciiRuntime clampItem clampSources)
   \<and> severity (buildDiffReport asciiRuntime clampItem clampSources) = 100"
proof -
  have six: "6 \<le> length (missingIn (buildDiffReport asciiRuntime clampItem clampSources))"
    by (simp add: clampItem_report)
  from six severity_formula_clamped [of asciiRuntime clampItem clampSources]
  have "severity (buildDiffReport asciiRuntime clampItem clampSources) = 100"
    by blast
  then show ?thesis by (simp add: clampItem_report)
qed

subsection \<open>Field differences\<close>









subsection \<open>Cache\<close>

lemma cacheStep_other_key: "eventKey ev \<noteq> key \<Longrightarrow> cacheStep m ev key = m key"
  by (cases ev)
    (auto simp: getOrSet_call_def getOrSet_resume_def Let_def
      split: option.splits Settled.splits)

lemma cacheRun_other_keys:
  "\<forall>ev\<in>set events. eventKey ev \<noteq> key \<Longrightarrow> cacheRun m events key = m key"
  unfolding cacheRun_def
  by (induction events arbitrary: m) (simp_all add: cacheStep_other_key)

lemma getOrSet_call_absent:
  "m key = None \<Longrightarrow> fst (getOrSet_call m key ttlMs now fresh) = Started fresh"
  by (simp add: getOrSet_call_def)

lemma getOrSet_call_no_value:
  "m key = Some e \<Longrightarrow> cachedValue e = None \<Longrightarrow> inflight e = None
     \<Longrightarrow> fst (getOrSet_call m key ttlMs now fresh) = Started fresh"
  by (simp add: getOrSet_call_def)

text \<open>
  Claim C3.  When the producer's promise rejects, the continuation of \<open>getOrSet\<close>
  deletes the key (every other key is untouched) and rethrows the same error; a
  caller that joined the promise gets that error too; and after any further work on
  other keys, whatever the time and the time-to-live of the next call for the key,
  that call invokes the producer.
\<close>

theorem getOrSet_failure_evicts:
  "fst (getOrSet_resume m key ttlMs now (Rejected err)) = m(key := None)
   \<and> fst (getOrSet_resume m key ttlMs now (Rejected err)) key = None
   \<and> snd (getOrSet_resume m key ttlMs now (Rejected err)) = Inl err
   \<and> joinedResult (Rejected err :: 'v Settled) = Inl err
   \<and> ((\<forall>ev\<in>set events. eventKey ev \<noteq> key) \<longrightarrow>
        cacheRun (fst (getOrSet_resume m key ttlMs now (Rejected err))) events key = None
        \<and> fst (getOrSet_call
                 (cacheRun (fst (getOrSet_resume (m :: 'v MemoryCache) key ttlMs now (Rejected err))) events)
                 key ttlMs' now' fresh) = Started fresh)"
proof -
  have gone: "fst (getOrSet_resume m key ttlMs now (Rejected err)) = m(key := None)"
    by (simp add: getOrSet_resume_def)
  have later: "cacheRun (m(key := None)) events key = None"
    if "\<forall>ev\<in>set events. eventKey ev \<noteq> key"
    using cacheRun_other_keys [OF that, of "m(key := None)"] by simp
  show ?thesis
    unfolding gone
    by (simp add: getOrSet_resume_def joinedResult_def later getOrSet_call_absent)
qed

theorem getOrSet_failure_evicts_witness:
  "fst (getOrSet_call
         (cacheRun (fst (getOrSet_resume
                      (snd (getOrSet_call (Map.empty :: nat MemoryCache) ''diff-data'' 600000 0 1))
                      ''diff-data'' 600000 40 (Rejected ''boom'')))
            otherKeyEvents)
         ''diff-data'' 600000 50 2) = Started 2
   \<and> snd (getOrSet_resume
           (snd (getOrSet_call (Map.empty :: nat MemoryCache) ''diff-data'' 600000 0 1))
           ''diff-data'' 600000 40 (Rejected ''boom'')) = Inl ''boom''"
proof -
  have other: "\<forall>ev\<in>set otherKeyEvents. eventKey ev \<noteq> ''diff-data''"
    by (simp add: otherKeyEvents_def)
  from other getOrSet_failure_evicts
    [of "snd (getOrSet_call (Map.empty :: nat MemoryCache) ''diff-data'' 600000 0 1)"
      "''diff-data''" 600000 40 "''boom''" otherKeyEvents 600000 50 2]
  show ?thesis by blast
qed

text \<open>
  Claim C10.  When the producer resolves with \<^verbatim>\<open>undefined\<close>, the entry stored has no
  value; so after any further work on other keys (no producer for the key being in
  flight) the next call for the key invokes the producer at every time, also before
  the entry expires.  A defined value stored the same way is served until it expires.
\<close>

theorem getOrSet_undefined_never_hit:
  "fst (getOrSet_resume m key ttlMs now (Resolved None)) key =
       Some \<lparr> expiresAt = now + ttlMs, cachedValue = None, inflight = None \<rparr>
   \<and> snd (getOrSet_resume m key ttlMs now (Resolved None)) = Inr None
   \<and> ((\<forall>ev\<in>set events. eventKey ev \<noteq> key) \<longrightarrow>
        fst (getOrSet_call
              (cacheRun (fst (getOrSet_resume (m :: 'v MemoryCache) key ttlMs now (Resolved None))) events)
              key ttlMs' now' fresh) = Started fresh)
   \<and> fst (getOrSet_call (fst (getOrSet_resume m key ttlMs now (Resolved (Some v)))) key ttlMs' now' fresh)
       = (if now + ttlMs > now' then Hit v else Started fresh)"
proof -
  let ?m1 = "fst (getOrSet_resume m key ttlMs now (Resolved None))"
  have entry: "?m1 key = Some \<lparr> expiresAt = now + ttlMs, cachedValue = None, inflight = None \<rparr>"
    by (simp add: getOrSet_resume_def)
  have later: "fst (getOrSet_call (cacheRun ?m1 events) key ttlMs' now' fresh) = Started fresh"
    if "\<forall>ev\<in>set events. eventKey ev \<noteq> key"
  proof -
    have "cacheRun ?m1 events key = ?m1 key"
      using cacheRun_other_keys [OF that] .
    with entry show ?thesis
      by (simp add: getOrSet_call_no_value)
  qed
  have served: "fst (getOrSet_call (fst (getOrSet_resume m key ttlMs now (Resolved (Some v)))) key ttlMs' now' fresh)
       = (if now + ttlMs > now' then Hit v else Started fresh)"
    by (simp add: getOrSet_resume_def getOrSet_call_def)
  from entry later served show ?thesis
    by (simp add: getOrSet_resume_def)
qed

theorem getOrSet_undefined_never_hit_witness:
  "fst (getOrSet_call
         (cacheRun (fst (getOrSet_resume
                      (snd (getOrSet_call (Map.empty :: nat MemoryCache) ''diff-data'' 600000 0 1))
                      ''diff-data'' 600000 40 (Resolved None)))
            otherKeyEvents)
         ''diff-data'' 600000 50 2) = Started 2
   \<and> (50 :: int) < 40 + 600000"
proof -
  have other: "\<forall>ev\<in>set otherKeyEvents. eventKey ev \<noteq> ''diff-data''"
    by (simp add: otherKeyEvents_def)
  from other getOrSet_undefined_never_hit
    [of "snd (getOrSet_call (Map.empty :: nat MemoryCache) ''diff-data'' 600000 0 1)"
      "''diff-data''" 600000 40 otherKeyEvents 600000 50 2]
  show ?thesis by simp
qed

subsection \<open>Sorting with a comparator\<close>

lemma mset_insertBy: "mset (insertBy cmp x xs) = add_mset x (mset xs)"
  by (induction xs) auto

lemma mset_sortBy: "mset (sortBy cmp xs) = mset xs"
  unfolding sortBy_def by (induction xs) (auto simp: mset_insertBy)



lemma length_sortBy: "length (sortBy cmp xs) = length xs"
  using mset_sortBy [of cmp xs] by (metis size_mset)




subsection \<open>The concrete collation\<close>







subsection \<open>Order of the resolver's output\<close>







subsection \<open>Recipe parts\<close>







lemma normalizeRecipeParts_other:
  "(\<forall>entries. v \<noteq> JArr entries) \<Longrightarrow> (\<forall>kvs. v \<noteq> JObj kvs) \<Longrightarrow> normalizeRecipeParts rt v = None"
  by (cases v) (simp_all add: normalizeRecipeParts_def)





subsection \<open>Bigram similarity\<close>

lemma length_bigrams: "length (bigrams v) = length v + 1"
  by (simp add: bigrams_def Let_def)

lemma cnt_countToken: "cnt (countToken x m) t = cnt m t + (if t = x then 1 else 0)"
  by (simp add: cnt_def countToken_def)

lemma cnt_fold_countToken: "cnt (fold countToken xs m) t = cnt m t + count (mset xs) t"
  by (induction xs arbitrary: m) (simp_all add: cnt_countToken)

lemma fold_overlapStep:
  "(\<And>t. cnt (snd st) t = count M t)
     \<Longrightarrow> fst (fold overlapStep ys st) = fst st + size (M \<inter># mset ys)"
proof (induction ys arbitrary: st M)
  case Nil
  then show ?case by simp
next
  case (Cons y ys)
  have cur: "(case snd st y of None \<Rightarrow> 0 | Some c \<Rightarrow> c) = count M y"
    using Cons.prems [of y] by (simp add: cnt_def)
  show ?case
  proof (cases "y \<in># M")
    case True
    then have pos: "count M y > 0" by simp
    let ?st' = "(fst st + 1, (snd st)(y \<mapsto> count M y - 1))"
    have step: "overlapStep y st = ?st'"
      using pos cur by (simp add: overlapStep_def Let_def)
    have inv: "\<And>t. cnt (snd ?st') t = count (M - {#y#}) t"
      using Cons.prems by (simp add: cnt_def)
    have "fst (fold overlapStep ys ?st') = fst ?st' + size ((M - {#y#}) \<inter># mset ys)"
      by (rule Cons.IH [OF inv])
    moreover have "M \<inter># mset (y # ys) = add_mset y ((M - {#y#}) \<inter># mset ys)"
      using True by (simp add: inter_add_right2)
    ultimately show ?thesis by (simp add: step)
  next
    case False
    then have zero: "count M y = 0" by (simp add: not_in_iff)
    have step: "overlapStep y st = st"
      using zero cur by (simp add: overlapStep_def Let_def)
    have "M \<inter># mset (y # ys) = M \<inter># mset ys"
      using False by (simp add: inter_add_right1)
    with Cons.IH [OF Cons.prems] show ?thesis by (simp add: step)
  qed
qed

lemma overlap_is_intersection:
  "fst (fold overlapStep ys (0, fold countToken xs Map.empty)) = size (mset xs \<inter># mset ys)"
proof -
  have "\<And>t. cnt (snd (0 :: nat, fold countToken xs Map.empty)) t = count (mset xs) t"
    by (simp add: cnt_fold_countToken) (simp add: cnt_def)
  from fold_overlapStep [OF this] show ?thesis by simp
qed

lemma similarity_dice:
  assumes "left \<noteq> []" "right \<noteq> []"
  shows "similarity left right =
           of_nat (2 * size (mset (bigrams left) \<inter># mset (bigrams right)))
           / of_nat (length (bigrams left) + length (bigrams right))"
proof (cases "left = right")
  case True
  have "size (mset (bigrams right)) = length right + 1"
    by (simp add: length_bigrams)
  then show ?thesis using True by (simp add: similarity_def length_bigrams)
next
  case False
  with assms show ?thesis
    by (simp add: similarity_def Let_def length_bigrams overlap_is_intersection)
qed

subsection \<open>The fuzzy scan\<close>

lemma fuzzy_scan:
  "n \<le> length cs \<Longrightarrow> fold (fuzzyStep cs sid key) [0..<n] (None, 0) = (bi, sc) \<Longrightarrow>
     (case bi of
        None \<Rightarrow> sc = 0 \<and> (\<forall>j<n. eligible cs sid j \<longrightarrow> similarity key (nameKey (cs ! j)) \<le> 0)
      | Some b \<Rightarrow>
          b < n \<and> eligible cs sid b \<and> sc = similarity key (nameKey (cs ! b)) \<and> 0 < sc
          \<and> (\<forall>j<n. eligible cs sid j \<longrightarrow> similarity key (nameKey (cs ! j)) \<le> sc)
          \<and> (\<forall>j<b. eligible cs sid j \<longrightarrow> similarity key (nameKey (cs ! j)) < sc))"
proof (induction n arbitrary: bi sc)
  case 0
  then show ?case by simp
next
  case (Suc n)
  obtain bi0 sc0 where prev: "fold (fuzzyStep cs sid key) [0..<n] (None, 0) = (bi0, sc0)"
    by (cases "fold (fuzzyStep cs sid key) [0..<n] (None, 0)") auto
  from Suc.prems have n: "n \<le> length cs" by simp
  note ih = Suc.IH [OF n prev]
  from Suc.prems(2) prev have step: "fuzzyStep cs sid key n (bi0, sc0) = (bi, sc)"
    by simp
  show ?case
  proof (cases "eligible cs sid n \<and> sc0 < similarity key (nameKey (cs ! n))")
    case True
    with step have res: "bi = Some n" "sc = similarity key (nameKey (cs ! n))"
      by (auto simp: fuzzyStep_def Let_def eligible_def)
    have pos: "0 \<le> sc0" using ih by (cases bi0) auto
    have below: "\<forall>j<n. eligible cs sid j \<longrightarrow> similarity key (nameKey (cs ! j)) \<le> sc0"
      using ih by (cases bi0) auto
    from True res pos below show ?thesis
      by (auto simp: less_Suc_eq)
  next
    case False
    with step have res: "bi = bi0" "sc = sc0"
      by (auto simp: fuzzyStep_def Let_def eligible_def split: if_splits)
    from False res ih show ?thesis
      by (cases bi0) (auto simp: less_Suc_eq not_less)
  qed
qed

lemma fuzzyBest_None:
  assumes "fuzzyBest cs sid key = (None, sc)"
  shows "sc = 0 \<and> (\<forall>j<length cs. eligible cs sid j \<longrightarrow> similarity key (nameKey (cs ! j)) \<le> 0)"
proof -
  have "fold (fuzzyStep cs sid key) [0..<length cs] (None, 0) = (None, sc)"
    using assms by (simp add: fuzzyBest_def)
  from fuzzy_scan [OF le_refl this, unfolded option.case] show ?thesis .
qed

lemma fuzzyBest_Some:
  assumes "fuzzyBest cs sid key = (Some b, sc)"
  shows "b < length cs \<and> eligible cs sid b \<and> sc = similarity key (nameKey (cs ! b)) \<and> 0 < sc
     \<and> (\<forall>j<length cs. eligible cs sid j \<longrightarrow> similarity key (nameKey (cs ! j)) \<le> sc)
     \<and> (\<forall>j<b. eligible cs sid j \<longrightarrow> similarity key (nameKey (cs ! j)) < sc)"
proof -
  have "fold (fuzzyStep cs sid key) [0..<length cs] (None, 0) = (Some b, sc)"
    using assms by (simp add: fuzzyBest_def)
  from fuzzy_scan [OF le_refl this, unfolded option.case] show ?thesis .
qed

subsection \<open>One resolution step\<close>

lemma findExact_Some:
  "findExact cs sid l = Some a \<Longrightarrow> a \<in> set l \<and> bySource (cs ! a) sid = None"
  unfolding findExact_def by (auto simp: find_Some_iff)

lemma matchItem_cases:
  "matchItem thr cs idx sid key =
     (case findExact cs sid (case idx key of None \<Rightarrow> [] | Some l \<Rightarrow> l) of
        Some i \<Rightarrow> (Some i, Exact, 1)
      | None \<Rightarrow>
          if startsWith key ''id:'' then (None, NoMatch, 1)
          else if fst (fuzzyBest cs sid key) \<noteq> None \<and> thr \<le> snd (fuzzyBest cs sid key)
          then (fst (fuzzyBest cs sid key), Fuzzy, roundTo3 (snd (fuzzyBest cs sid key)))
          else (None, NoMatch, 1))"
  unfolding matchItem_def
  by (cases "fuzzyBest cs sid key") (auto split: option.splits)

lemma matchItem_Some:
  assumes inv: "indexInRange (cs, idx)"
    and m: "matchItem thr cs idx sid key = (Some a, meth, c)"
  shows "a < length cs \<and> bySource (cs ! a) sid = None"
proof (cases "findExact cs sid (case idx key of None \<Rightarrow> [] | Some l \<Rightarrow> l)")
  case (Some i)
  with m have "a = i" by (simp add: matchItem_cases)
  with findExact_Some [OF Some] have mem: "a \<in> set (case idx key of None \<Rightarrow> [] | Some l \<Rightarrow> l)"
    and free: "bySource (cs ! a) sid = None" by simp_all
  from mem obtain l where "idx key = Some l" "a \<in> set l"
    by (cases "idx key") auto
  with inv have "a < length cs" unfolding indexInRange_def by auto
  with free show ?thesis by simp
next
  case None
  with m have best: "fst (fuzzyBest cs sid key) = Some a"
    by (auto simp: matchItem_cases split: if_splits)
  then have "fuzzyBest cs sid key = (Some a, snd (fuzzyBest cs sid key))"
    by (metis prod.collapse)
  from fuzzyBest_Some [OF this] show ?thesis by (simp add: eligible_def)
qed

lemma map_filter_append:
  "List.map_filter f (xs @ ys) = List.map_filter f xs @ List.map_filter f ys"
  by (induction xs) (auto split: option.splits)

lemma mset_slots_update:
  assumes a: "a < length cs" and free: "bySource (cs ! a) sid = None"
  shows "mset (slots s (cs[a := assignTo sid item meth c (cs ! a)])) =
           (if s = sid then add_mset item (mset (slots s cs)) else mset (slots s cs))"
proof -
  have split: "cs = take a cs @ cs ! a # drop (Suc a) cs"
    using a by (rule id_take_nth_drop)
  have upd: "cs[a := assignTo sid item meth c (cs ! a)] =
      take a cs @ assignTo sid item meth c (cs ! a) # drop (Suc a) cs"
    using a by (rule upd_conv_take_nth_drop)
  have old: "slots s cs = slots s (take a cs) @ slots s [cs ! a] @ slots s (drop (Suc a) cs)"
    unfolding slots_def
    by (subst split) (simp add: map_filter_append del: append_take_drop_id split: option.splits)
  have new: "slots s (cs[a := assignTo sid item meth c (cs ! a)]) =
      slots s (take a cs) @ slots s [assignTo sid item meth c (cs ! a)] @ slots s (drop (Suc a) cs)"
    unfolding slots_def upd by (simp add: map_filter_append split: option.splits)
  have one: "slots s [assignTo sid item meth c (cs ! a)] =
      (if s = sid then [item] else slots s [cs ! a])"
    by (simp add: slots_def assignTo_def)
  have none: "slots sid [cs ! a] = []"
    using free by (simp add: slots_def)
  have msetold: "mset (slots s cs) =
      mset (slots s (take a cs)) + mset (slots s [cs ! a]) + mset (slots s (drop (Suc a) cs))"
    using arg_cong [OF old, of mset] by simp
  show ?thesis
    unfolding new one msetold by (simp add: none)
qed

lemma mset_slots_push:
  "mset (slots s (cs @ [newCanonical n key shown sid item])) =
     (if s = sid then add_mset item (mset (slots s cs)) else mset (slots s cs))"
  by (simp add: slots_def map_filter_append newCanonical_def)

lemma processItem_slots:
  assumes inv: "indexInRange st"
  shows "mset (slots s (fst (processItem thr sid (i, item) st))) =
           (if s = sid then add_mset item (mset (slots s (fst st))) else mset (slots s (fst st)))"
proof -
  obtain cs idx where st: "st = (cs, idx)" by (cases st)
  obtain a meth c where m: "matchItem thr cs idx sid (getNameKey item i) = (a, meth, c)"
    by (cases "matchItem thr cs idx sid (getNameKey item i)") auto
  show ?thesis
  proof (cases a)
    case None
    with m st show ?thesis
      by (simp add: processItem_def Let_def mset_slots_push)
  next
    case (Some b)
    with m inv st have "b < length cs \<and> bySource (cs ! b) sid = None"
      using matchItem_Some by blast
    with m Some st show ?thesis
      by (simp add: processItem_def Let_def mset_slots_update)
  qed
qed

lemma processItem_indexInRange:
  assumes inv: "indexInRange st"
  shows "indexInRange (processItem thr sid (i, item) st)"
proof -
  obtain cs idx where st: "st = (cs, idx)" by (cases st)
  obtain a meth c where m: "matchItem thr cs idx sid (getNameKey item i) = (a, meth, c)"
    by (cases "matchItem thr cs idx sid (getNameKey item i)") auto
  show ?thesis
  proof (cases a)
    case None
    define old where "old = (case idx (getNameKey item i) of None \<Rightarrow> [] | Some l \<Rightarrow> l)"
    have oldr: "\<forall>j\<in>set old. j < length cs"
      using inv st unfolding old_def indexInRange_def
      by (cases "idx (getNameKey item i)") auto
    have res: "processItem thr sid (i, item) st =
        (cs @ [newCanonical (length cs) (getNameKey item i) (getDisplayName item i) sid item],
         idx(getNameKey item i \<mapsto> old @ [length cs]))"
      using m None st by (simp add: processItem_def Let_def old_def)
    show ?thesis
      unfolding res indexInRange_def
    proof (intro allI impI ballI)
      fix k l j
      assume l: "snd (cs @ [newCanonical (length cs) (getNameKey item i) (getDisplayName item i) sid item],
                    idx(getNameKey item i \<mapsto> old @ [length cs])) k = Some l"
        and j: "j \<in> set l"
      show "j < length (fst (cs @ [newCanonical (length cs) (getNameKey item i) (getDisplayName item i) sid item],
                    idx(getNameKey item i \<mapsto> old @ [length cs])))"
      proof (cases "k = getNameKey item i")
        case True
        with l j oldr show ?thesis by (auto simp: less_Suc_eq)
      next
        case False
        with l have "idx k = Some l" by simp
        with inv st j have "j < length cs" unfolding indexInRange_def by auto
        then show ?thesis by simp
      qed
    qed
  next
    case (Some b)
    with m st inv show ?thesis
      unfolding indexInRange_def by (simp add: processItem_def Let_def)
  qed
qed

subsection \<open>The whole resolution run\<close>

lemma fold_processItem:
  "indexInRange st \<Longrightarrow>
     indexInRange (fold (processItem thr sid) xs st)
     \<and> mset (slots s (fst (fold (processItem thr sid) xs st))) =
         mset (slots s (fst st)) + (if s = sid then mset (map snd xs) else {#})"
proof (induction xs arbitrary: st)
  case Nil
  then show ?case by simp
next
  case (Cons x xs)
  obtain i item where x: "x = (i, item)" by (cases x)
  have inv': "indexInRange (processItem thr sid (i, item) st)"
    by (rule processItem_indexInRange [OF Cons.prems])
  from Cons.IH [OF inv'] processItem_slots [OF Cons.prems, of s thr sid i item]
  show ?case by (simp add: x)
qed

lemma processSource_slots:
  assumes "indexInRange st"
  shows "indexInRange (processSource thr nbs sid st)
     \<and> mset (slots s (fst (processSource thr nbs sid st))) =
         mset (slots s (fst st)) + (if s = sid then mset (itemsOf nbs sid) else {#})"
  using fold_processItem [OF assms, of thr sid "enumerate 0 (itemsOf nbs sid)" s]
  by (simp add: processSource_def)

lemma fold_processSource:
  "indexInRange st \<Longrightarrow>
     indexInRange (fold (processSource thr nbs) srcs st)
     \<and> mset (slots s (fst (fold (processSource thr nbs) srcs st))) =
         mset (slots s (fst st)) + mset (concat (map (itemsOf nbs) (filter (\<lambda>t. t = s) srcs)))"
proof (induction srcs arbitrary: st)
  case Nil
  then show ?case by simp
next
  case (Cons sid srcs)
  from processSource_slots [OF Cons.prems, of thr nbs sid s]
  have inv': "indexInRange (processSource thr nbs sid st)"
    and step: "mset (slots s (fst (processSource thr nbs sid st))) =
         mset (slots s (fst st)) + (if s = sid then mset (itemsOf nbs sid) else {#})"
    by simp_all
  from Cons.IH [OF inv'] step show ?case by simp
qed

lemma resolveAll_index_in_range: "indexInRange (resolveAll thr nbs srcs)"
  unfolding resolveAll_def
  by (rule fold_processSource [THEN conjunct1]) (simp add: indexInRange_def)

lemma resolveAll_slots:
  "mset (slots s (fst (resolveAll thr nbs srcs))) =
     mset (concat (map (itemsOf nbs) (filter (\<lambda>t. t = s) srcs)))"
proof -
  have "indexInRange ([], Map.empty)" by (simp add: indexInRange_def)
  from fold_processSource [OF this, of thr nbs srcs s] show ?thesis
    by (simp add: resolveAll_def slots_def)
qed

lemma bySource_finalizeItem: "bySource (finalizeItem rt srcs c) = bySource c"
  by (simp add: finalizeItem_def Let_def split: option.splits)

lemma slots_map_finalizeItem: "slots s (map (finalizeItem rt srcs) cs) = slots s cs"
  unfolding slots_def by (induction cs) (simp_all add: bySource_finalizeItem split: option.splits)

lemma mset_map_filter: "mset (List.map_filter f xs) = image_mset (the \<circ> f) (filter_mset (\<lambda>x. f x \<noteq> None) (mset xs))"
  by (simp add: List.map_filter_def)

lemma mergeAndDiffItems_slots:
  "mset (slots s (mergeAndDiffItems rt nbs srcs thr)) =
     mset (concat (map (itemsOf nbs) (filter (\<lambda>t. t = s) srcs)))"
proof -
  have "mset (slots s (mergeAndDiffItems rt nbs srcs thr)) =
      mset (slots s (map (finalizeItem rt srcs) (fst (resolveAll thr nbs srcs))))"
    unfolding mergeAndDiffItems_def slots_def by (simp only: mset_map_filter mset_sortBy)
  then show ?thesis by (simp only: slots_map_finalizeItem resolveAll_slots)
qed

lemma concat_filter_distinct:
  "distinct srcs \<Longrightarrow> s \<in> set srcs \<Longrightarrow> concat (map f (filter (\<lambda>t. t = s) srcs)) = f s"
proof (induction srcs)
  case Nil
  then show ?case by simp
next
  case (Cons x xs)
  show ?case
  proof (cases "x = s")
    case True
    with Cons.prems have "filter (\<lambda>t. t = s) xs = []"
      by (auto simp: filter_empty_conv)
    with True show ?thesis by simp
  next
    case False
    with Cons show ?thesis by simp
  qed
qed

text \<open>
  Claim C1, as amended.  A canonical entity keeps its items in a map from provider
  to item, so it never holds two items of one provider.  For every input map,
  provider list and threshold, the items that the canonical entities of the output
  hold for a provider are, counted with multiplicity, the items read for that
  provider: its input list once for each time the provider occurs in the list.  So when the list names no provider twice, each
  input item of a listed provider is held by exactly one canonical entity (no item
  is lost, none replaces another, and no two items of one provider share an
  entity), and no entity holds an item of a provider that is not listed.
\<close>

theorem resolver_assigns_each_item_once:
  "mset (slots s (mergeAndDiffItems rt nbs srcs thr)) =
     mset (concat (map (itemsOf nbs) (filter (\<lambda>t. t = s) srcs)))
   \<and> (distinct srcs \<and> s \<in> set srcs \<longrightarrow>
        mset (slots s (mergeAndDiffItems rt nbs srcs thr)) = mset (itemsOf nbs s)
        \<and> length (filter (\<lambda>c. bySource c s \<noteq> None) (mergeAndDiffItems rt nbs srcs thr))
            = length (itemsOf nbs s))
   \<and> (s \<notin> set srcs \<longrightarrow> (\<forall>c\<in>set (mergeAndDiffItems rt nbs srcs thr). bySource c s = None))"
proof -
  let ?out = "mergeAndDiffItems rt nbs srcs thr"
  have general: "mset (slots s ?out) = mset (concat (map (itemsOf nbs) (filter (\<lambda>t. t = s) srcs)))"
    by (rule mergeAndDiffItems_slots)
  have len: "length (filter (\<lambda>c. bySource c s \<noteq> None) ?out) = length (slots s ?out)"
    by (simp add: slots_def List.map_filter_def)
  have once: "mset (slots s ?out) = mset (itemsOf nbs s)
      \<and> length (filter (\<lambda>c. bySource c s \<noteq> None) ?out) = length (itemsOf nbs s)"
    if "distinct srcs" "s \<in> set srcs"
  proof -
    have eq: "mset (slots s ?out) = mset (itemsOf nbs s)"
      using general concat_filter_distinct [OF that, of "itemsOf nbs"] by simp
    from eq have "length (slots s ?out) = length (itemsOf nbs s)"
      by (metis size_mset)
    with eq len show ?thesis by simp
  qed
  have unlisted: "\<forall>c\<in>set ?out. bySource c s = None" if "s \<notin> set srcs"
  proof -
    from that have "filter (\<lambda>t. t = s) srcs = []" by (auto simp: filter_empty_conv)
    with general have "slots s ?out = []" by simp
    then show ?thesis
      by (auto simp: slots_def List.map_filter_def filter_empty_conv)
  qed
  from general once unlisted show ?thesis by blast
qed

lemma twoProviderInput_slots:
  "map (\<lambda>c. (map_option name (bySource c Ardb), map_option name (bySource c Metaforge)))
     (mergeAndDiffItems asciiRuntime twoProviderInput [Ardb, Metaforge] (93 / 100))
   = [(Some (Some ''a''), None), (None, Some None), (Some (Some ''A''), Some (Some ''a!''))]"
  by code_simp

theorem resolver_assigns_each_item_once_witness:
  "mset (slots Ardb (mergeAndDiffItems asciiRuntime twoProviderInput [Ardb, Metaforge] (93 / 100)))
     = mset (itemsOf twoProviderInput Ardb)
   \<and> length (filter (\<lambda>c. bySource c Ardb \<noteq> None)
        (mergeAndDiffItems asciiRuntime twoProviderInput [Ardb, Metaforge] (93 / 100))) = 2
   \<and> list_all (\<lambda>c. bySource c Mahcks = None)
        (mergeAndDiffItems asciiRuntime twoProviderInput [Ardb, Metaforge] (93 / 100))
   \<and> map (\<lambda>c. (map_option name (bySource c Ardb), map_option name (bySource c Metaforge)))
        (mergeAndDiffItems asciiRuntime twoProviderInput [Ardb, Metaforge] (93 / 100))
      = [(Some (Some ''a''), None), (None, Some None), (Some (Some ''A''), Some (Some ''a!''))]"
proof -
  have d: "distinct [Ardb, Metaforge] \<and> Ardb \<in> set [Ardb, Metaforge]" by simp
  have u: "Mahcks \<notin> set [Ardb, Metaforge]" by simp
  have n: "length (itemsOf twoProviderInput Ardb) = 2"
    by (simp add: itemsOf_def twoProviderInput_def)
  from d n resolver_assigns_each_item_once
    [of Ardb asciiRuntime twoProviderInput "[Ardb, Metaforge]" "93 / 100"]
  have a: "mset (slots Ardb (mergeAndDiffItems asciiRuntime twoProviderInput [Ardb, Metaforge] (93 / 100)))
     = mset (itemsOf twoProviderInput Ardb)
   \<and> length (filter (\<lambda>c. bySource c Ardb \<noteq> None)
        (mergeAndDiffItems asciiRuntime twoProviderInput [Ardb, Metaforge] (93 / 100))) = 2"
    by simp
  from u resolver_assigns_each_item_once
    [of Mahcks asciiRuntime twoProviderInput "[Ardb, Metaforge]" "93 / 100"]
  have b: "list_all (\<lambda>c. bySource c Mahcks = None)
        (mergeAndDiffItems asciiRuntime twoProviderInput [Ardb, Metaforge] (93 / 100))"
    by (simp add: list_all_iff)
  from a b twoProviderInput_slots show ?thesis by blast
qed

text \<open>
  Claim C1 as stated fails for a provider list that names a provider twice: the
  provider's one item is read in both passes, and the second pass, finding the first
  entity occupied, creates a second entity for the same item.
\<close>

theorem repeated_provider_assigns_twice:
  "map (\<lambda>c. (canonicalId c, map_option sourceItemId (bySource c Ardb)))
     (mergeAndDiffItems asciiRuntime repeatedInput [Ardb, Ardb] (93 / 100))
   = [(''canonical-1'', Some (Some ''1'')), (''canonical-2'', Some (Some ''1''))]
   \<and> length (itemsOf repeatedInput Ardb) = 1"
  by code_simp

subsection \<open>The fuzzy fallback\<close>

lemma fuzzyBest_unique:
  assumes b: "b < length cs" "eligible cs sid b" "0 < similarity key (nameKey (cs ! b))"
    and top: "\<forall>j<length cs. eligible cs sid j \<longrightarrow>
                similarity key (nameKey (cs ! j)) \<le> similarity key (nameKey (cs ! b))"
    and first: "\<forall>j<b. eligible cs sid j \<longrightarrow>
                similarity key (nameKey (cs ! j)) < similarity key (nameKey (cs ! b))"
  shows "fuzzyBest cs sid key = (Some b, similarity key (nameKey (cs ! b)))"
proof -
  obtain bi sc where best: "fuzzyBest cs sid key = (bi, sc)"
    by (cases "fuzzyBest cs sid key") auto
  show ?thesis
  proof (cases bi)
    case None
    with best fuzzyBest_None [of cs sid key sc] b show ?thesis by force
  next
    case (Some b')
    with best have f: "fuzzyBest cs sid key = (Some b', sc)" by simp
    note p = fuzzyBest_Some [OF f]
    from p have b': "b' < length cs" "eligible cs sid b'"
      and sc: "sc = similarity key (nameKey (cs ! b'))" by simp_all
    from p b sc have le1: "similarity key (nameKey (cs ! b)) \<le> similarity key (nameKey (cs ! b'))"
      by simp
    from top b' have le2: "similarity key (nameKey (cs ! b')) \<le> similarity key (nameKey (cs ! b))"
      by simp
    have "b' = b"
    proof (rule ccontr)
      assume "b' \<noteq> b"
      then consider "b' < b" | "b < b'" by linarith
      then show False
      proof cases
        case 1
        with first b' le1 show False by force
      next
        case 2
        with p b sc le2 show False by force
      qed
    qed
    with f sc show ?thesis by simp
  qed
qed

lemma matchItem_fuzzy_iff:
  "(matchItem thr cs idx sid key = (Some b, Fuzzy, c)) =
     (findExact cs sid (case idx key of None \<Rightarrow> [] | Some l \<Rightarrow> l) = None
      \<and> \<not> startsWith key ''id:''
      \<and> b < length cs \<and> eligible cs sid b
      \<and> 0 < similarity key (nameKey (cs ! b))
      \<and> thr \<le> similarity key (nameKey (cs ! b))
      \<and> (\<forall>j<length cs. eligible cs sid j \<longrightarrow>
            similarity key (nameKey (cs ! j)) \<le> similarity key (nameKey (cs ! b)))
      \<and> (\<forall>j<b. eligible cs sid j \<longrightarrow>
            similarity key (nameKey (cs ! j)) < similarity key (nameKey (cs ! b)))
      \<and> c = roundTo3 (similarity key (nameKey (cs ! b))))"
  (is "?L = ?R")
proof
  assume l: ?L
  define sc where "sc = snd (fuzzyBest cs sid key)"
  from l have exact: "findExact cs sid (case idx key of None \<Rightarrow> [] | Some l \<Rightarrow> l) = None"
    by (auto simp: matchItem_cases split: option.splits)
  with l have nonid: "\<not> startsWith key ''id:''"
    and best: "fst (fuzzyBest cs sid key) = Some b"
    and thr: "thr \<le> sc"
    and c: "c = roundTo3 sc"
    unfolding sc_def by (auto simp: matchItem_cases split: if_splits)
  from best have "fuzzyBest cs sid key = (Some b, sc)"
    unfolding sc_def by (metis prod.collapse)
  note p = fuzzyBest_Some [OF this]
  from p have sc: "sc = similarity key (nameKey (cs ! b))" by blast
  from p thr c exact nonid show ?R unfolding sc by blast
next
  assume r: ?R
  then have "fuzzyBest cs sid key = (Some b, similarity key (nameKey (cs ! b)))"
    by (intro fuzzyBest_unique) blast+
  with r show ?L by (simp add: matchItem_cases)
qed

lemma matchItem_not_fuzzy:
  assumes exact: "findExact cs sid (case idx key of None \<Rightarrow> [] | Some l \<Rightarrow> l) = None"
    and none: "\<forall>b c. matchItem thr cs idx sid key \<noteq> (Some b, Fuzzy, c)"
  shows "matchItem thr cs idx sid key = (None, NoMatch, 1)"
proof (cases "\<not> startsWith key ''id:'' \<and> fst (fuzzyBest cs sid key) \<noteq> None
                \<and> thr \<le> snd (fuzzyBest cs sid key)")
  case True
  then obtain b where "fst (fuzzyBest cs sid key) = Some b" by auto
  with True exact have "matchItem thr cs idx sid key = (Some b, Fuzzy, roundTo3 (snd (fuzzyBest cs sid key)))"
    by (simp add: matchItem_cases)
  with none show ?thesis by blast
next
  case False
  with exact show ?thesis by (auto simp: matchItem_cases)
qed

lemma processItem_assigned:
  assumes m: "matchItem thr cs idx sid (getNameKey item i) = (Some b, meth, c)"
    and b: "b < length cs"
  shows "length (fst (processItem thr sid (i, item) (cs, idx))) = length cs
     \<and> bySource (fst (processItem thr sid (i, item) (cs, idx)) ! b) sid = Some item
     \<and> matchDetails (fst (processItem thr sid (i, item) (cs, idx)) ! b) sid
         = Some \<lparr> matchMethod = meth, confidence = c \<rparr>"
  using m b by (simp add: processItem_def Let_def assignTo_def)

text \<open>
  Claim C2, as amended.  The resolver assigns an item by the fuzzy fallback exactly
  when the exact lookup finds nothing, the key is not an id-key, and the entity
  chosen is the earliest of the maximum-scoring candidates (the existing entities
  without an entry for the provider and without an id-key), its score being greater
  than 0 and at least the threshold; the confidence recorded with the method
  \<open>Fuzzy\<close> is that score rounded to three decimals.  When the exact lookup finds
  nothing and the fallback assigns nothing, no entity is assigned.  The score of two
  non-empty keys is twice the size of the multiset intersection of their padded
  bigrams over the sum of the two bigram counts.
\<close>

theorem fuzzy_fallback_rule:
  "(matchItem thr cs idx sid key = (Some b, Fuzzy, c)) =
     (findExact cs sid (case idx key of None \<Rightarrow> [] | Some l \<Rightarrow> l) = None
      \<and> \<not> startsWith key ''id:''
      \<and> b < length cs \<and> eligible cs sid b
      \<and> 0 < similarity key (nameKey (cs ! b))
      \<and> thr \<le> similarity key (nameKey (cs ! b))
      \<and> (\<forall>j<length cs. eligible cs sid j \<longrightarrow>
            similarity key (nameKey (cs ! j)) \<le> similarity key (nameKey (cs ! b)))
      \<and> (\<forall>j<b. eligible cs sid j \<longrightarrow>
            similarity key (nameKey (cs ! j)) < similarity key (nameKey (cs ! b)))
      \<and> c = roundTo3 (similarity key (nameKey (cs ! b))))
   \<and> roundTo3 x = of_int (mathRound (x * 1000)) / 1000
   \<and> (findExact cs sid (case idx key of None \<Rightarrow> [] | Some l \<Rightarrow> l) = None
        \<and> (\<forall>b' c'. matchItem thr cs idx sid key \<noteq> (Some b', Fuzzy, c'))
        \<longrightarrow> matchItem thr cs idx sid key = (None, NoMatch, 1))
   \<and> (matchItem thr cs idx sid (getNameKey item i) = (Some b, Fuzzy, c) \<longrightarrow>
        length (fst (processItem thr sid (i, item) (cs, idx))) = length cs
        \<and> bySource (fst (processItem thr sid (i, item) (cs, idx)) ! b) sid = Some item
        \<and> matchDetails (fst (processItem thr sid (i, item) (cs, idx)) ! b) sid
            = Some \<lparr> matchMethod = Fuzzy, confidence = c \<rparr>)
   \<and> (left \<noteq> [] \<and> right \<noteq> [] \<longrightarrow>
        similarity left right =
          of_nat (2 * size (mset (bigrams left) \<inter># mset (bigrams right)))
          / of_nat (length (bigrams left) + length (bigrams right)))
   \<and> bigrams left = map (\<lambda>k. take 2 (drop k ('' '' @ left @ '' ''))) [0..<length left + 1]"
proof -
  have assigned: "length (fst (processItem thr sid (i, item) (cs, idx))) = length cs
        \<and> bySource (fst (processItem thr sid (i, item) (cs, idx)) ! b) sid = Some item
        \<and> matchDetails (fst (processItem thr sid (i, item) (cs, idx)) ! b) sid
            = Some \<lparr> matchMethod = Fuzzy, confidence = c \<rparr>"
    if m: "matchItem thr cs idx sid (getNameKey item i) = (Some b, Fuzzy, c)"
  proof -
    from m have "b < length cs" by (simp add: matchItem_fuzzy_iff)
    from processItem_assigned [OF m this] show ?thesis .
  qed
  have grams: "bigrams left = map (\<lambda>k. take 2 (drop k ('' '' @ left @ '' ''))) [0..<length left + 1]"
    by (simp add: bigrams_def Let_def)
  from matchItem_fuzzy_iff [of thr cs idx sid key b c]
    matchItem_not_fuzzy [of cs sid idx key thr] assigned
    similarity_dice [of left right] grams roundTo3_def [of x]
  show ?thesis by blast
qed

lemma fuzzyInput_state:
  "map nameKey (fst (resolveAll (8 / 9) fuzzyInput [Ardb])) = [''quick battery'', ''quick batterx'']
   \<and> getNameKey (mkItem Metaforge None (Some ''Quik Battery'')) 0 = ''quik battery''
   \<and> matchItem (8 / 9) (fst (resolveAll (8 / 9) fuzzyInput [Ardb]))
       (snd (resolveAll (8 / 9) fuzzyInput [Ardb])) Metaforge ''quik battery''
       = (Some 0, Fuzzy, 889 / 1000)
   \<and> matchItem (8 / 9 + 1 / 1000) (fst (resolveAll (8 / 9) fuzzyInput [Ardb]))
       (snd (resolveAll (8 / 9) fuzzyInput [Ardb])) Metaforge ''quik battery''
       = (None, NoMatch, 1)
   \<and> similarity ''quik battery'' ''quick battery'' = 8 / 9
   \<and> similarity ''quik battery'' ''quick batterx'' = 20 / 27"
  by code_simp

theorem fuzzy_fallback_rule_witness:
  "matchItem (8 / 9) (fst (resolveAll (8 / 9) fuzzyInput [Ardb]))
       (snd (resolveAll (8 / 9) fuzzyInput [Ardb])) Metaforge ''quik battery''
       = (Some 0, Fuzzy, 889 / 1000)
   \<and> eligible (fst (resolveAll (8 / 9) fuzzyInput [Ardb])) Metaforge 0
   \<and> (8 / 9 :: rat) \<le> similarity ''quik battery'' (nameKey (fst (resolveAll (8 / 9) fuzzyInput [Ardb]) ! 0))
   \<and> similarity ''quik battery'' ''quick battery'' = 8 / 9
   \<and> matchItem (8 / 9 + 1 / 1000) (fst (resolveAll (8 / 9) fuzzyInput [Ardb]))
       (snd (resolveAll (8 / 9) fuzzyInput [Ardb])) Metaforge ''quik battery''
       = (None, NoMatch, 1)"
proof -
  let ?cs = "fst (resolveAll (8 / 9) fuzzyInput [Ardb])"
  let ?idx = "snd (resolveAll (8 / 9) fuzzyInput [Ardb])"
  have m: "matchItem (8 / 9) ?cs ?idx Metaforge ''quik battery'' = (Some 0, Fuzzy, 889 / 1000)"
    using fuzzyInput_state by blast
  note rule = fuzzy_fallback_rule
    [of "8 / 9" ?cs ?idx Metaforge "''quik battery''" 0 "889 / 1000" 0 "mkItem Ardb None None" 0
      "''a''" "''b''", THEN conjunct1, THEN iffD1, OF m]
  from rule have a: "eligible ?cs Metaforge 0"
    and b: "(8 / 9 :: rat) \<le> similarity ''quik battery'' (nameKey (?cs ! 0))"
    by blast+
  from m a b fuzzyInput_state show ?thesis by blast
qed

text \<open>
  Claim C2 as stated fails for a threshold that is not positive: with threshold 0
  the only candidate scores 0, which is at least the threshold, yet the scan keeps no
  candidate (a score must exceed the initial best score 0) and the item gets an entity
  of its own.
\<close>

theorem zero_score_never_merges:
  "similarity ''xyz'' ''abc'' = 0
   \<and> map nameKey (fst (resolveAll 0 zeroInput [Ardb])) = [''abc'']
   \<and> eligible (fst (resolveAll 0 zeroInput [Ardb])) Metaforge 0
   \<and> getNameKey (mkItem Metaforge None (Some ''xyz'')) 0 = ''xyz''
   \<and> matchItem 0 (fst (resolveAll 0 zeroInput [Ardb])) (snd (resolveAll 0 zeroInput [Ardb]))
        Metaforge ''xyz'' = (None, NoMatch, 1)
   \<and> map (\<lambda>c. (map_option name (bySource c Ardb), map_option name (bySource c Metaforge)))
        (mergeAndDiffItems asciiRuntime zeroInput [Ardb, Metaforge] 0)
      = [(Some (Some ''abc''), None), (None, Some (Some ''xyz''))]"
  by code_simp

subsection \<open>Pipeline orchestrator\<close>










subsection \<open>Snapshot store\<close>

lemma statement_inTransaction:
  assumes "saved db = Some snapshot"
    and "\<And>d. saved d = Some snapshot \<Longrightarrow> inTransaction snapshot (op d)"
  shows "inTransaction snapshot (statement faults op db)"
  using assms by (simp add: statement_def Let_def inTransaction_def)

lemma andThen_inTransaction:
  assumes "inTransaction snapshot r"
    and "\<And>d. saved d = Some snapshot \<Longrightarrow> inTransaction snapshot (f d)"
  shows "inTransaction snapshot (andThen r f)"
  using assms by (cases r) (simp_all add: andThen_def inTransaction_def)

lemma exec_delete_links_inTransaction:
  "saved db = Some snapshot \<Longrightarrow> inTransaction snapshot (exec_delete_links faults db)"
  unfolding exec_delete_links_def
  by (rule statement_inTransaction) (simp_all add: inTransaction_def)

lemma exec_delete_items_inTransaction:
  "saved db = Some snapshot \<Longrightarrow> inTransaction snapshot (exec_delete_items faults db)"
  unfolding exec_delete_items_def
  by (rule statement_inTransaction) (simp_all add: inTransaction_def)

lemma insertItem_run_inTransaction:
  "saved db = Some snapshot \<Longrightarrow> inTransaction snapshot (insertItem_run faults row db)"
  unfolding insertItem_run_def
  by (rule statement_inTransaction) (simp_all add: inTransaction_def)

lemma insertLink_run_inTransaction:
  "saved db = Some snapshot \<Longrightarrow> inTransaction snapshot (insertLink_run faults row db)"
  unfolding insertLink_run_def
  by (rule statement_inTransaction) (simp_all add: inTransaction_def)

lemma writeState_run_inTransaction:
  "saved db = Some snapshot \<Longrightarrow> inTransaction snapshot (writeState_run faults row db)"
  unfolding writeState_run_def
  by (rule statement_inTransaction) (simp_all add: inTransaction_def)

lemma insertLinks_inTransaction:
  "saved db = Some snapshot \<Longrightarrow> inTransaction snapshot (insertLinks faults links db)"
proof (induction links arbitrary: db)
  case Nil
  then show ?case by (simp add: inTransaction_def)
next
  case (Cons link links)
  show ?case
    unfolding insertLinks.simps
    by (rule andThen_inTransaction [OF insertLink_run_inTransaction [OF Cons.prems] Cons.IH])
qed

lemma insertItems_inTransaction:
  "saved db = Some snapshot \<Longrightarrow> inTransaction snapshot (insertItems rt faults cachedAt items db)"
proof (induction items arbitrary: db)
  case Nil
  then show ?case by (simp add: inTransaction_def)
next
  case (Cons item rest)
  show ?case
  proof (cases "textOrNull (field item ''id'')")
    case None
    with Cons show ?thesis by simp
  next
    case (Some ident)
    have "inTransaction snapshot
        (andThen
          (andThen (insertItem_run faults (itemRowOf rt cachedAt ident item) db)
             (insertLinks faults (extractLinks rt ident item)))
          (insertItems rt faults cachedAt rest))"
      by (intro andThen_inTransaction insertItem_run_inTransaction insertLinks_inTransaction
          Cons.IH Cons.prems)
    with Some show ?thesis by simp
  qed
qed

lemma tryBlock_failure:
  assumes open_txn: "saved db = Some snapshot"
    and failed: "tryBlock rt faults fetchResult db = Inl (err, d)"
  shows "saved d = Some snapshot"
proof -
  let ?body = "andThen
           (andThen
              (andThen (exec_delete_links faults db) (exec_delete_items faults))
              (insertItems rt faults (fetchedAt fetchResult) (filter isObject (itemsRaw fetchResult))))
           (writeState_run faults
              \<lparr> last_synced_at = fetchedAt fetchResult, version = versionOrCommit fetchResult,
                item_count = length (filter isObject (itemsRaw fetchResult)) \<rparr>)"
  have body: "inTransaction snapshot ?body"
    by (intro andThen_inTransaction exec_delete_links_inTransaction exec_delete_items_inTransaction
        insertItems_inTransaction writeState_run_inTransaction open_txn)
  have whole: "tryBlock rt faults fetchResult db = andThen ?body (exec_commit faults)"
    by (simp add: tryBlock_def Let_def)
  show ?thesis
  proof (cases ?body)
    case (Inl failure)
    with failed whole have "failure = (err, d)" by (simp add: andThen_def)
    with body Inl show ?thesis by (simp add: inTransaction_def)
  next
    case (Inr d2)
    with body have s: "saved d2 = Some snapshot" by (simp add: inTransaction_def)
    from failed whole Inr have "exec_commit faults d2 = Inl (err, d)" by (simp add: andThen_def)
    with s show ?thesis
      by (auto simp: exec_commit_def statement_def Let_def split: if_splits)
  qed
qed

lemma persistFetchResult_failure:
  assumes "fst (persistFetchResult rt faults db fetchResult) = Inl err"
  shows "tables (snd (persistFetchResult rt faults db fetchResult)) = tables db
         \<and> saved (snd (persistFetchResult rt faults db fetchResult)) = saved db"
proof (cases "exec_begin faults db")
  case (Inl failure)
  obtain e d where f: "failure = (e, d)" by (cases failure)
  from Inl f have "tables d = tables db \<and> saved d = saved db"
    by (auto simp: exec_begin_def statement_def Let_def split: if_splits option.splits)
  with Inl f show ?thesis by (simp add: persistFetchResult_def)
next
  case (Inr db1)
  then have db1: "saved db = None" "saved db1 = Some (tables db)"
    by (auto simp: exec_begin_def statement_def Let_def split: if_splits option.splits)
  show ?thesis
  proof (cases "tryBlock rt faults fetchResult db1")
    case (Inl failure)
    obtain e d where f: "failure = (e, d)" by (cases failure)
    from tryBlock_failure [OF db1(2)] Inl f have "saved d = Some (tables db)" by simp
    then have "exec_rollback d = Inr (d \<lparr> tables := tables db, saved := None, executed := executed d + 1 \<rparr>)"
      by (simp add: exec_rollback_def)
    with Inr Inl f db1 show ?thesis by (simp add: persistFetchResult_def)
  next
    case (Inr db2)
    with \<open>exec_begin faults db = Inr db1\<close> assms show ?thesis
      by (simp add: persistFetchResult_def)
  qed
qed

lemma statement_success:
  "statement faults op db = Inr d \<Longrightarrow> op (db \<lparr> executed := executed db + 1 \<rparr>) = Inr d"
  by (simp add: statement_def Let_def split: if_splits)

lemma andThen_success:
  "andThen r f = Inr d \<Longrightarrow> \<exists>d0. r = Inr d0 \<and> f d0 = Inr d"
  by (cases r) (simp_all add: andThen_def)

lemma insertLink_run_success:
  "insertLink_run faults row db = Inr d \<Longrightarrow>
     metaforge_items (tables d) = metaforge_items (tables db)
     \<and> metaforge_item_links (tables d) = metaforge_item_links (tables db) @ [row]
     \<and> metaforge_sync_state (tables d) = metaforge_sync_state (tables db)
     \<and> saved d = saved db"
  unfolding insertLink_run_def
  by (drule statement_success) (auto split: if_splits)

lemma insertItem_run_success:
  "insertItem_run faults row db = Inr d \<Longrightarrow>
     metaforge_items (tables d) = metaforge_items (tables db) @ [row]
     \<and> metaforge_item_links (tables d) = metaforge_item_links (tables db)
     \<and> metaforge_sync_state (tables d) = metaforge_sync_state (tables db)
     \<and> saved d = saved db"
  unfolding insertItem_run_def
  by (drule statement_success) (auto split: if_splits)

lemma insertLinks_success:
  "insertLinks faults links db = Inr d \<Longrightarrow>
     metaforge_items (tables d) = metaforge_items (tables db)
     \<and> metaforge_item_links (tables d) = metaforge_item_links (tables db) @ links
     \<and> metaforge_sync_state (tables d) = metaforge_sync_state (tables db)
     \<and> saved d = saved db"
proof (induction links arbitrary: db)
  case Nil
  then show ?case by simp
next
  case (Cons link links)
  from Cons.prems obtain d0 where one: "insertLink_run faults link db = Inr d0"
    and rest: "insertLinks faults links d0 = Inr d"
    by (auto dest: andThen_success)
  from insertLink_run_success [OF one] Cons.IH [OF rest] show ?case by simp
qed

lemma insertItems_success:
  "insertItems rt faults cachedAt items db = Inr d \<Longrightarrow>
     metaforge_items (tables d) =
       metaforge_items (tables db)
       @ map (\<lambda>p. itemRowOf rt cachedAt (fst p) (snd p)) (identifiedIn items)
     \<and> metaforge_item_links (tables d) =
       metaforge_item_links (tables db)
       @ concat (map (\<lambda>p. extractLinks rt (fst p) (snd p)) (identifiedIn items))
     \<and> metaforge_sync_state (tables d) = metaforge_sync_state (tables db)
     \<and> saved d = saved db"
proof (induction items arbitrary: db)
  case Nil
  then show ?case by (simp add: identifiedIn_def)
next
  case (Cons item rest)
  show ?case
  proof (cases "textOrNull (field item ''id'')")
    case None
    with Cons.prems have "insertItems rt faults cachedAt rest db = Inr d" by simp
    from Cons.IH [OF this] None show ?thesis by (simp add: identifiedIn_def)
  next
    case (Some ident)
    with Cons.prems obtain d1 d2 where
      one: "insertItem_run faults (itemRowOf rt cachedAt ident item) db = Inr d1"
      and two: "insertLinks faults (extractLinks rt ident item) d1 = Inr d2"
      and three: "insertItems rt faults cachedAt rest d2 = Inr d"
      by (auto dest!: andThen_success)
    from insertItem_run_success [OF one] insertLinks_success [OF two] Cons.IH [OF three] Some
    show ?thesis by (simp add: identifiedIn_def)
  qed
qed

lemma tables_eqI:
  "metaforge_items t = a \<Longrightarrow> metaforge_item_links t = b \<Longrightarrow> metaforge_sync_state t = c
     \<Longrightarrow> (t :: Tables) = \<lparr> metaforge_items = a, metaforge_item_links = b, metaforge_sync_state = c \<rparr>"
  by (cases t) simp

lemma tryBlock_success:
  assumes open_txn: "saved db = Some snapshot"
    and ok: "tryBlock rt faults fetchResult db = Inr d"
  shows "saved d = None
     \<and> tables d =
         \<lparr> metaforge_items = rowsOf rt fetchResult,
           metaforge_item_links = linksOf rt fetchResult,
           metaforge_sync_state =
             Some \<lparr> last_synced_at = fetchedAt fetchResult, version = versionOrCommit fetchResult,
                    item_count = length (filter isObject (itemsRaw fetchResult)) \<rparr> \<rparr>"
proof -
  let ?raw = "filter isObject (itemsRaw fetchResult)"
  let ?state = "\<lparr> last_synced_at = fetchedAt fetchResult, version = versionOrCommit fetchResult,
                  item_count = length ?raw \<rparr>"
  from ok obtain d1 d2 d3 d4 where
    s1: "exec_delete_links faults db = Inr d1"
    and s2: "exec_delete_items faults d1 = Inr d2"
    and s3: "insertItems rt faults (fetchedAt fetchResult) ?raw d2 = Inr d3"
    and s4: "writeState_run faults ?state d3 = Inr d4"
    and s5: "exec_commit faults d4 = Inr d"
    unfolding tryBlock_def Let_def by (auto dest!: andThen_success)
  from s1 open_txn have a1: "saved d1 = Some snapshot"
    unfolding exec_delete_links_def by (auto dest!: statement_success)
  from s2 a1 have a2: "saved d2 = Some snapshot" "metaforge_items (tables d2) = []"
    "metaforge_item_links (tables d2) = []"
    unfolding exec_delete_items_def by (auto dest!: statement_success)
  from insertItems_success [OF s3] a2 have a3: "saved d3 = Some snapshot"
    "metaforge_items (tables d3) = rowsOf rt fetchResult"
    "metaforge_item_links (tables d3) = linksOf rt fetchResult"
    by (simp_all add: rowsOf_def linksOf_def identified_def identifiedIn_def)
  from s4 a3 have a4: "saved d4 = Some snapshot"
    "metaforge_items (tables d4) = rowsOf rt fetchResult"
    "metaforge_item_links (tables d4) = linksOf rt fetchResult"
    "metaforge_sync_state (tables d4) = Some ?state"
    unfolding writeState_run_def by (auto dest!: statement_success)
  from s5 a4 have a5: "saved d = None" "tables d = tables d4"
    unfolding exec_commit_def by (auto dest!: statement_success split: option.splits)
  from a4 a5 show ?thesis by (simp add: tables_eqI)
qed

lemma persistFetchResult_success:
  assumes "fst (persistFetchResult rt faults db fetchResult) = Inr ok"
  shows "saved db = None
     \<and> saved (snd (persistFetchResult rt faults db fetchResult)) = None
     \<and> tables (snd (persistFetchResult rt faults db fetchResult)) =
         \<lparr> metaforge_items = rowsOf rt fetchResult,
           metaforge_item_links = linksOf rt fetchResult,
           metaforge_sync_state =
             Some \<lparr> last_synced_at = fetchedAt fetchResult, version = versionOrCommit fetchResult,
                    item_count = length (filter isObject (itemsRaw fetchResult)) \<rparr> \<rparr>"
proof (cases "exec_begin faults db")
  case (Inl failure)
  with assms show ?thesis by (cases failure) (simp add: persistFetchResult_def)
next
  case (Inr db1)
  then have db1: "saved db = None" "saved db1 = Some (tables db)"
    by (auto simp: exec_begin_def statement_def Let_def split: if_splits option.splits)
  show ?thesis
  proof (cases "tryBlock rt faults fetchResult db1")
    case (Inl failure)
    obtain e d where f: "failure = (e, d)" by (cases failure)
    with Inl Inr assms show ?thesis
      by (cases "exec_rollback d") (auto simp: persistFetchResult_def)
  next
    case (Inr db2)
    from tryBlock_success [OF db1(2) Inr] \<open>exec_begin faults db = Inr db1\<close> Inr db1(1)
    show ?thesis by (simp add: persistFetchResult_def)
  qed
qed

lemma read_path_propagates:
  assumes stale: "isStale dateMs syncIntervalMs nowMs db"
    and failed: "fst (persistFetchResult rt faults db fetchResult) = Inl err"
  shows "buildMetaForgeDataFromStore rt faults dateMs syncIntervalMs thr nowMs fallbackNow generatedNow
           (Fulfilled fetchResult) db
         = (Inl err, snd (persistFetchResult rt faults db fetchResult))"
  using assms
  by (cases "persistFetchResult rt faults db fetchResult")
    (simp add: buildMetaForgeDataFromStore_def ensureFreshMetaForgeSnapshot_def)

text \<open>
  Claim C7.  \<open>persistFetchResult\<close> is all or nothing.  If it fails, at whatever
  statement and for whatever reason (a fault of the database, a repeated id among
  the fetched items, a transaction already open), the rows of the three tables are
  what they were before the call, no transaction is left open that was not open
  before, the sync state and the raw items read back are unchanged, and the read
  path that started the resync returns that error.  If it succeeds, the tables hold
  exactly the rows of the fetched items, their links and the new sync state.
\<close>

theorem resync_atomic:
  "(fst (persistFetchResult rt faults db fetchResult) = Inl err \<longrightarrow>
      tables (snd (persistFetchResult rt faults db fetchResult)) = tables db
      \<and> saved (snd (persistFetchResult rt faults db fetchResult)) = saved db
      \<and> getSyncState (snd (persistFetchResult rt faults db fetchResult)) = getSyncState db
      \<and> readItemsRaw (snd (persistFetchResult rt faults db fetchResult)) = readItemsRaw db
      \<and> (isStale dateMs syncIntervalMs nowMs db \<longrightarrow>
           buildMetaForgeDataFromStore rt faults dateMs syncIntervalMs thr nowMs fallbackNow generatedNow
             (Fulfilled fetchResult) db
           = (Inl err, snd (persistFetchResult rt faults db fetchResult))))
   \<and> (fst (persistFetchResult rt faults db fetchResult) = Inr ok \<longrightarrow>
        saved db = None
        \<and> saved (snd (persistFetchResult rt faults db fetchResult)) = None
        \<and> tables (snd (persistFetchResult rt faults db fetchResult)) =
            \<lparr> metaforge_items = rowsOf rt fetchResult,
              metaforge_item_links = linksOf rt fetchResult,
              metaforge_sync_state =
                Some \<lparr> last_synced_at = fetchedAt fetchResult, version = versionOrCommit fetchResult,
                       item_count = length (filter isObject (itemsRaw fetchResult)) \<rparr> \<rparr>)"
proof -
  have unchanged: "getSyncState (snd (persistFetchResult rt faults db fetchResult)) = getSyncState db
      \<and> readItemsRaw (snd (persistFetchResult rt faults db fetchResult)) = readItemsRaw db"
    if "tables (snd (persistFetchResult rt faults db fetchResult)) = tables db"
    using that by (simp add: getSyncState_def readItemsRaw_def)
  from persistFetchResult_failure [of rt faults db fetchResult err]
    persistFetchResult_success [of rt faults db fetchResult ok]
    read_path_propagates [of dateMs syncIntervalMs nowMs db rt faults fetchResult err]
    unchanged
  show ?thesis by blast
qed

lemma seeded_runs:
  "fst (persistFetchResult asciiRuntime (\<lambda>k. False) emptyDatabase firstFetch) = Inr ()
   \<and> map row_id (metaforge_items (tables seededDatabase)) = [''bat'']
   \<and> map link_related_item_id (metaforge_item_links (tables seededDatabase)) = [Some ''wire'']
   \<and> getSyncState seededDatabase = Some \<lparr> last_synced_at = ''t1'', version = ''v1'', item_count = 1 \<rparr>
   \<and> isStale (\<lambda>s. Some 0) 100 500 seededDatabase
   \<and> fst (persistFetchResult asciiRuntime (\<lambda>k. False) seededDatabase duplicateFetch)
       = Inl (SqlError ''UNIQUE constraint failed: metaforge_items.id'')
   \<and> fst (persistFetchResult asciiRuntime (\<lambda>k. k = 9) seededDatabase firstFetch)
       = Inl (SqlError ''disk I/O error'')"
  by code_simp

theorem resync_atomic_witness:
  "fst (persistFetchResult asciiRuntime (\<lambda>k. False) seededDatabase duplicateFetch)
       = Inl (SqlError ''UNIQUE constraint failed: metaforge_items.id'')
   \<and> tables (snd (persistFetchResult asciiRuntime (\<lambda>k. False) seededDatabase duplicateFetch))
       = tables seededDatabase
   \<and> map row_id (metaforge_items (tables seededDatabase)) = [''bat'']
   \<and> getSyncState (snd (persistFetchResult asciiRuntime (\<lambda>k. False) seededDatabase duplicateFetch))
       = Some \<lparr> last_synced_at = ''t1'', version = ''v1'', item_count = 1 \<rparr>
   \<and> fst (buildMetaForgeDataFromStore asciiRuntime (\<lambda>k. False) (\<lambda>s. Some 0) 100 (93 / 100) 500
            ''fallback'' ''generated'' (Fulfilled duplicateFetch) seededDatabase)
       = Inl (SqlError ''UNIQUE constraint failed: metaforge_items.id'')
   \<and> tables (snd (persistFetchResult asciiRuntime (\<lambda>k. k = 9) seededDatabase firstFetch))
       = tables seededDatabase
   \<and> tables seededDatabase =
       \<lparr> metaforge_items = rowsOf asciiRuntime firstFetch,
         metaforge_item_links = linksOf asciiRuntime firstFetch,
         metaforge_sync_state = Some \<lparr> last_synced_at = ''t1'', version = ''v1'', item_count = 1 \<rparr> \<rparr>"
proof -
  let ?dup = "persistFetchResult asciiRuntime (\<lambda>k. False) seededDatabase duplicateFetch"
  have f1: "fst ?dup = Inl (SqlError ''UNIQUE constraint failed: metaforge_items.id'')"
    using seeded_runs by blast
  have stale: "isStale (\<lambda>s. Some 0) 100 500 seededDatabase"
    using seeded_runs by blast
  note r1 = resync_atomic
    [of asciiRuntime "\<lambda>k. False" seededDatabase duplicateFetch
      "SqlError ''UNIQUE constraint failed: metaforge_items.id''" "\<lambda>s. Some 0" 100 500
      "93 / 100" "''fallback''" "''generated''" "()", THEN conjunct1, rule_format, OF f1]
  from r1 have t1: "tables (snd ?dup) = tables seededDatabase"
    and g1: "getSyncState (snd ?dup) = getSyncState seededDatabase" by blast+
  from r1 stale have b1: "fst (buildMetaForgeDataFromStore asciiRuntime (\<lambda>k. False) (\<lambda>s. Some 0) 100
            (93 / 100) 500 ''fallback'' ''generated'' (Fulfilled duplicateFetch) seededDatabase)
       = Inl (SqlError ''UNIQUE constraint failed: metaforge_items.id'')"
    by simp
  have f2: "fst (persistFetchResult asciiRuntime (\<lambda>k. k = 9) seededDatabase firstFetch)
       = Inl (SqlError ''disk I/O error'')"
    using seeded_runs by blast
  from resync_atomic
    [of asciiRuntime "\<lambda>k. k = 9" seededDatabase firstFetch "SqlError ''disk I/O error''",
      THEN conjunct1, rule_format, OF f2]
  have t2: "tables (snd (persistFetchResult asciiRuntime (\<lambda>k. k = 9) seededDatabase firstFetch))
       = tables seededDatabase" by blast
  have f3: "fst (persistFetchResult asciiRuntime (\<lambda>k. False) emptyDatabase firstFetch) = Inr ()"
    using seeded_runs by blast
  from resync_atomic
    [of asciiRuntime "\<lambda>k. False" emptyDatabase firstFetch _ _ _ _ _ _ _ "()",
      THEN conjunct2, rule_format, OF f3]
  have t3: "tables seededDatabase =
       \<lparr> metaforge_items = rowsOf asciiRuntime firstFetch,
         metaforge_item_links = linksOf asciiRuntime firstFetch,
         metaforge_sync_state = Some \<lparr> last_synced_at = ''t1'', version = ''v1'', item_count = 1 \<rparr> \<rparr>"
    by (simp add: seededDatabase_def firstFetch_def)
  from f1 t1 g1 b1 t2 t3 seeded_runs show ?thesis by simp
qed

end
